theory Spec2Isabelle
  imports Complex_Main
begin

section \<open>Device activity ingestion and daily energy balance\<close>

text \<open>
  A shallow embedding of \<^verbatim>\<open>DeviceService\<close> and \<^verbatim>\<open>HealthKitService\<close>
  (\<^verbatim>\<open>src/server/src/services/openai.ts\<close>, lines 434 to 1193).

  Conventions of the model:
  \<^item> A JavaScript number that is stored or sent is a finite double, given by its value, a
    rational (\<open>rat\<close>); an optional or nullable number is a \<open>rat option\<close>. The result
    of an arithmetic operation is a \<open>number\<close>: a finite value, an infinity or NaN. Every
    operation is the IEEE 754 one: the exact result rounded to the nearest double, a tie
    going to the even one. The sign of a zero is not modelled.
  \<^item> An instant is the number of milliseconds since the epoch (\<open>int\<close>); a calendar
    date is the number of whole days since the epoch (\<open>int\<close>), that is the UTC midnight
    that \<^verbatim>\<open>new Date("YYYY-MM-DD")\<close> denotes.
  \<^item> The persistence layer is a record of tables, each table a list of rows in insertion
    order. Every service function takes the tables and returns them updated, next to
    its result; a thrown \<^verbatim>\<open>Error\<close> is the \<open>Inl\<close> of a sum type.
  \<^item> The clock (\<^verbatim>\<open>new Date()\<close>, \<^verbatim>\<open>Date.now()\<close>), the random source
    (\<^verbatim>\<open>Math.random()\<close>) and the time zone of the server are arguments of the
    functions that read them.
  \<^item> In the data of an update the persistence layer skips a field whose value is
    \<^verbatim>\<open>undefined\<close>, and a create leaves a column it is not given empty.
  \<^item> A date string is read where it enters (\<open>date_input\<close>); an upsert whose date is
    not a date throws. Failures of the database connection itself are not modelled.
\<close>

subsection \<open>Data model\<close>

type_synonym instant = int
type_synonym day = int

datatype connection_status = CONNECTED | DISCONNECTED | ERROR | SYNCING

text \<open>
  A row of \<^verbatim>\<open>connectedDevice\<close>. The identifier is generated by the database; the
  model draws it from a counter. A column that no service function has written yet is
  \<open>None\<close>.
\<close>

record device =
  connected_device_id :: nat
  user_id :: string
  device_name :: string
  device_type :: string
  connection_status :: connection_status
  last_sync_time :: "instant option"
  is_primary_device :: bool
  access_token_encrypted :: "string option"
  refresh_token_encrypted :: "string option"
  token_expires_at :: "instant option"
  updated_at :: "instant option"

text \<open>
  \<^verbatim>\<open>ActivityData\<close>, the payload of a sync. Every field may be missing
  (\<^verbatim>\<open>undefined\<close>), which is \<open>None\<close>.
\<close>

record ActivityData =
  p_steps :: "rat option"
  caloriesBurned :: "rat option"
  activeMinutes :: "rat option"
  bmr :: "rat option"
  heartRate :: "rat option"
  weight :: "rat option"
  bodyFat :: "rat option"
  sleepHours :: "rat option"
  distance :: "rat option"

text \<open>
  The \<^verbatim>\<open>date\<close> string of a payload, as \<^verbatim>\<open>new Date(date)\<close> reads it: missing
  or empty, not a date (\<^verbatim>\<open>Invalid Date\<close>, which the persistence layer rejects), or a
  calendar date.
\<close>

datatype date_input = Absent | Invalid | Valid day

text \<open>\<^verbatim>\<open>ActivityData & { date: string }\<close>, one element of a bulk sync.\<close>

record DayData = ActivityData +
  p_date :: date_input

text \<open>\<^verbatim>\<open>HealthKitData\<close>, the payload of \<^verbatim>\<open>HealthKitService.saveHealthData\<close>.\<close>

record HealthKitData =
  hk_steps :: rat
  hk_caloriesBurned :: rat
  hk_activeMinutes :: rat
  hk_heartRate :: "rat option"
  hk_weight :: "rat option"
  hk_distance :: "rat option"
  hk_date :: date_input

text \<open>The \<^verbatim>\<open>raw_data\<close> column keeps the payload as it came.\<close>

datatype raw_json = RawActivity ActivityData | RawDay DayData | RawHealthKit HealthKitData

text \<open>A row of \<^verbatim>\<open>dailyActivitySummary\<close>; its unique key is (user, device, date).\<close>

record summary =
  s_user_id :: string
  device_id :: nat
  date :: day
  steps :: "rat option"
  calories_burned :: "rat option"
  active_minutes :: "rat option"
  bmr_estimate :: "rat option"
  heart_rate_avg :: "rat option"
  weight_kg :: "rat option"
  body_fat_percentage :: "rat option"
  sleep_hours :: "rat option"
  distance_km :: "rat option"
  source_device :: string
  sync_timestamp :: instant
  s_updated_at :: "instant option"
  raw_data :: raw_json

record meal =
  m_user_id :: string
  created_at :: instant
  calories :: "rat option"

record db =
  connectedDevice :: "device list"
  dailyActivitySummary :: "summary list"
  meals :: "meal list"
  next_id :: nat

datatype error =
    Failed_to_connect_device
  | Failed_to_disconnect_device
  | Failed_to_sync_device_data
  | Failed_to_bulk_sync_device_data
  | Invalid_date_value

subsection \<open>JavaScript and persistence-layer helpers\<close>

text \<open>\<^verbatim>\<open>x || 0\<close> on an optional number: a missing value and zero both give zero.\<close>

definition or0 :: "rat option \<Rightarrow> rat" where
  "or0 x = (case x of None \<Rightarrow> 0 | Some v \<Rightarrow> v)"

text \<open>\<^verbatim>\<open>Math.round\<close>: the nearest integer, a tie going up.\<close>

definition js_round :: "rat \<Rightarrow> int" where
  "js_round x = \<lfloor>x + 1 / 2\<rfloor>"

text \<open>The truth value of an optional string: missing and empty are both false.\<close>

definition truthy :: "string option \<Rightarrow> bool" where
  "truthy t = (case t of None \<Rightarrow> False | Some s \<Rightarrow> s \<noteq> [])"

definition msPerDay :: int where
  "msPerDay = 86400000"

text \<open>\<^verbatim>\<open>new Date().toISOString().split("T")[0]\<close>: the UTC calendar date of an instant.\<close>

definition utc_day :: "instant \<Rightarrow> day" where
  "utc_day now = now div msPerDay"

text \<open>
  In the \<^verbatim>\<open>data\<close> of an update, a field that is \<^verbatim>\<open>undefined\<close> is left out of
  the statement: the column keeps its value. A defined value is written.
\<close>

definition set_unless_undefined :: "'a option \<Rightarrow> 'a option \<Rightarrow> 'a option" where
  "set_unless_undefined v old = (case v of None \<Rightarrow> old | Some x \<Rightarrow> Some x)"

text \<open>\<^verbatim>\<open>update({ where: { connected_device_id }, data })\<close>.\<close>

definition update_device :: "nat \<Rightarrow> (device \<Rightarrow> device) \<Rightarrow> device list \<Rightarrow> device list" where
  "update_device i f ds = map (\<lambda>d. if connected_device_id d = i then f d else d) ds"

definition summary_key :: "summary \<Rightarrow> string \<times> nat \<times> day" where
  "summary_key r = (s_user_id r, device_id r, date r)"

text \<open>
  \<^verbatim>\<open>upsert({ where: { user_id_device_id_date }, update, create })\<close>: a row with the
  key is updated in place, otherwise the new row is appended. The row written is returned.
\<close>

definition upsert_summary ::
  "string \<times> nat \<times> day \<Rightarrow> (summary \<Rightarrow> summary) \<Rightarrow> summary \<Rightarrow> summary list
     \<Rightarrow> summary \<times> summary list" where
  "upsert_summary k upd new rows =
     (case List.find (\<lambda>r. summary_key r = k) rows of
        Some r \<Rightarrow> (upd r, map (\<lambda>x. if summary_key x = k then upd x else x) rows)
      | None \<Rightarrow> (new, rows @ [new]))"

subsection \<open>IEEE double arithmetic\<close>

text \<open>The value of a JavaScript expression of type number.\<close>

datatype number = Val rat | PosInfinity | NegInfinity | NaN

definition pow2 :: "int \<Rightarrow> rat" where
  "pow2 k = (if 0 \<le> k then 2 ^ nat k else 1 / 2 ^ nat (- k))"

text \<open>The position of the leading bit of a positive integer.\<close>

function ilog2 :: "int \<Rightarrow> int" where
  "ilog2 n = (if n \<le> 1 then 0 else 1 + ilog2 (n div 2))"
  by pat_completeness auto
termination
  by (relation "measure nat") auto

text \<open>
  The binary exponent \<open>e\<close> of a positive rational \<open>a\<close>: \<open>2^e \<le> a < 2^(e + 1)\<close>. The
  leading bits of the numerator and of the denominator give \<open>e\<close> or \<open>e + 1\<close>.
\<close>

definition adjust_exponent :: "rat \<Rightarrow> int \<Rightarrow> int" where
  "adjust_exponent a est = (if a < pow2 est then est - 1 else est)"

definition exponent :: "rat \<Rightarrow> int" where
  "exponent a =
     adjust_exponent a (ilog2 (fst (quotient_of a)) - ilog2 (snd (quotient_of a)))"

text \<open>The nearest integer to \<open>f + d\<close>, where \<open>0 \<le> d < 1\<close>; a tie goes to the even one.\<close>

definition nearest_even :: "int \<Rightarrow> rat \<Rightarrow> int" where
  "nearest_even f d =
     (if d < 1 / 2 then f
      else if 1 / 2 < d then f + 1
      else if even f then f else f + 1)"

definition round_half_even :: "rat \<Rightarrow> int" where
  "round_half_even y = nearest_even \<lfloor>y\<rfloor> (y - of_int \<lfloor>y\<rfloor>)"

text \<open>The nearest multiple of \<open>2^q\<close>.\<close>

definition round_to :: "int \<Rightarrow> rat \<Rightarrow> rat" where
  "round_to q x = of_int (round_half_even (x / pow2 q)) * pow2 q"

text \<open>
  Rounding to the grid of the doubles, before the check for overflow: 53 significant bits,
  and no bit below \<open>2^-1074\<close>.
\<close>

definition fl :: "rat \<Rightarrow> rat" where
  "fl x = (if x = 0 then 0 else round_to (max (exponent \<bar>x\<bar> - 52) (- 1074)) x)"

text \<open>A rounded value as a number: from \<open>2^1024\<close> on it is an infinity.\<close>

definition overflow :: "rat \<Rightarrow> number" where
  "overflow r =
     (if r \<noteq> 0 \<and> 1024 \<le> exponent \<bar>r\<bar>
      then (if 0 < r then PosInfinity else NegInfinity)
      else Val r)"

text \<open>The double nearest to a rational.\<close>

definition round_double :: "rat \<Rightarrow> number" where
  "round_double x = overflow (fl x)"

definition negative :: "number \<Rightarrow> bool" where
  "negative a = (case a of Val x \<Rightarrow> x < 0 | NegInfinity \<Rightarrow> True | _ \<Rightarrow> False)"

definition infinity :: "bool \<Rightarrow> number" where
  "infinity neg = (if neg then NegInfinity else PosInfinity)"

text \<open>\<^verbatim>\<open>a + b\<close>.\<close>

fun nadd :: "number \<Rightarrow> number \<Rightarrow> number" where
  "nadd (Val x) (Val y) = round_double (x + y)"
| "nadd NaN _ = NaN"
| "nadd _ NaN = NaN"
| "nadd PosInfinity NegInfinity = NaN"
| "nadd NegInfinity PosInfinity = NaN"
| "nadd PosInfinity _ = PosInfinity"
| "nadd _ PosInfinity = PosInfinity"
| "nadd NegInfinity _ = NegInfinity"
| "nadd _ NegInfinity = NegInfinity"

text \<open>\<^verbatim>\<open>-a\<close>.\<close>

fun nneg :: "number \<Rightarrow> number" where
  "nneg (Val x) = Val (- x)"
| "nneg PosInfinity = NegInfinity"
| "nneg NegInfinity = PosInfinity"
| "nneg NaN = NaN"

text \<open>\<^verbatim>\<open>a - b\<close>.\<close>

definition nsub :: "number \<Rightarrow> number \<Rightarrow> number" where
  "nsub a b = nadd a (nneg b)"

text \<open>\<^verbatim>\<open>a * b\<close>.\<close>

fun nmul :: "number \<Rightarrow> number \<Rightarrow> number" where
  "nmul (Val x) (Val y) = round_double (x * y)"
| "nmul NaN _ = NaN"
| "nmul _ NaN = NaN"
| "nmul a b = (if a = Val 0 \<or> b = Val 0 then NaN else infinity (negative a \<noteq> negative b))"

text \<open>\<^verbatim>\<open>a / b\<close>.\<close>

fun ndiv :: "number \<Rightarrow> number \<Rightarrow> number" where
  "ndiv (Val x) (Val y) =
     (if y = 0 then (if x = 0 then NaN else infinity (x < 0)) else round_double (x / y))"
| "ndiv NaN _ = NaN"
| "ndiv _ NaN = NaN"
| "ndiv (Val x) _ = Val 0"
| "ndiv a (Val y) = infinity (negative a \<noteq> (y < 0))"
| "ndiv _ _ = NaN"

text \<open>\<^verbatim>\<open>a < b\<close> and \<^verbatim>\<open>a <= b\<close>; a comparison with NaN is false.\<close>

fun nlt :: "number \<Rightarrow> number \<Rightarrow> bool" where
  "nlt (Val x) (Val y) = (x < y)"
| "nlt NaN _ = False"
| "nlt _ NaN = False"
| "nlt NegInfinity b = (b \<noteq> NegInfinity)"
| "nlt a PosInfinity = (a \<noteq> PosInfinity)"
| "nlt _ _ = False"

fun nle :: "number \<Rightarrow> number \<Rightarrow> bool" where
  "nle (Val x) (Val y) = (x \<le> y)"
| "nle NaN _ = False"
| "nle _ NaN = False"
| "nle NegInfinity _ = True"
| "nle _ PosInfinity = True"
| "nle _ _ = False"

text \<open>\<^verbatim>\<open>Math.abs\<close>.\<close>

fun nabs :: "number \<Rightarrow> number" where
  "nabs (Val x) = Val \<bar>x\<bar>"
| "nabs PosInfinity = PosInfinity"
| "nabs NegInfinity = PosInfinity"
| "nabs NaN = NaN"

text \<open>\<^verbatim>\<open>Math.round\<close> of a number; the nearest integer of a double is a double.\<close>

fun nround :: "number \<Rightarrow> number" where
  "nround (Val x) = Val (of_int (js_round x))"
| "nround a = a"

text \<open>The literal \<^verbatim>\<open>0.1\<close>.\<close>

definition one_tenth :: number where
  "one_tenth = round_double (1 / 10)"

subsection \<open>Credential encoding\<close>

definition b64_alphabet :: string where
  "b64_alphabet = ''ABCDEFGHIJKLMNOPQRSTUVWXYZabcdefghijklmnopqrstuvwxyz0123456789+/''"

definition b64_digit :: "int \<Rightarrow> char" where
  "b64_digit n = b64_alphabet ! nat (n mod 64)"

fun b64_encode :: "int list \<Rightarrow> string" where
  "b64_encode (a # b # c # rest) =
     (let n = a * 65536 + b * 256 + c
      in [b64_digit (n div 262144), b64_digit (n div 4096), b64_digit (n div 64), b64_digit n]
         @ b64_encode rest)"
| "b64_encode [a, b] =
     (let n = a * 65536 + b * 256
      in [b64_digit (n div 262144), b64_digit (n div 4096), b64_digit (n div 64), CHR ''=''])"
| "b64_encode [a] =
     (let n = a * 65536
      in [b64_digit (n div 262144), b64_digit (n div 4096), CHR ''='', CHR ''=''])"
| "b64_encode [] = []"

text \<open>\<^verbatim>\<open>Buffer.from(token).toString("base64")\<close>; a \<open>string\<close> is its bytes.\<close>

definition encryptToken :: "string \<Rightarrow> string" where
  "encryptToken token = b64_encode (map of_char token)"

subsection \<open>Sync orchestrator\<close>

text \<open>The \<^verbatim>\<open>update\<close> branch of the upsert in \<^verbatim>\<open>syncDeviceData\<close> and
  \<^verbatim>\<open>bulkSyncDeviceData\<close> (the two are written out alike in the source).\<close>

definition update_data :: "'a ActivityData_scheme \<Rightarrow> raw_json \<Rightarrow> instant \<Rightarrow> summary \<Rightarrow> summary" where
  "update_data a raw now r =
     r\<lparr>steps := Some (or0 (p_steps a)),
       calories_burned := Some (or0 (caloriesBurned a)),
       active_minutes := Some (or0 (activeMinutes a)),
       bmr_estimate := Some (or0 (bmr a)),
       heart_rate_avg := set_unless_undefined (heartRate a) (heart_rate_avg r),
       weight_kg := set_unless_undefined (weight a) (weight_kg r),
       body_fat_percentage := set_unless_undefined (bodyFat a) (body_fat_percentage r),
       sleep_hours := set_unless_undefined (sleepHours a) (sleep_hours r),
       distance_km := set_unless_undefined (distance a) (distance_km r),
       sync_timestamp := now,
       s_updated_at := Some now,
       raw_data := raw\<rparr>"

text \<open>The \<^verbatim>\<open>create\<close> branch; a column it does not name is empty.\<close>

definition create_data ::
  "string \<Rightarrow> nat \<Rightarrow> day \<Rightarrow> 'a ActivityData_scheme \<Rightarrow> raw_json \<Rightarrow> string \<Rightarrow> instant \<Rightarrow> summary" where
  "create_data user dev d a raw name now =
     \<lparr>s_user_id = user, device_id = dev, date = d,
      steps = Some (or0 (p_steps a)),
      calories_burned = Some (or0 (caloriesBurned a)),
      active_minutes = Some (or0 (activeMinutes a)),
      bmr_estimate = Some (or0 (bmr a)),
      heart_rate_avg = heartRate a,
      weight_kg = weight a,
      body_fat_percentage = bodyFat a,
      sleep_hours = sleepHours a,
      distance_km = distance a,
      source_device = name,
      sync_timestamp = now,
      s_updated_at = None,
      raw_data = raw\<rparr>"

text \<open>The update of the device row that ends a sync.\<close>

definition touch_device :: "instant \<Rightarrow> device \<Rightarrow> device" where
  "touch_device now d =
     d\<lparr>last_sync_time := Some now, connection_status := CONNECTED, updated_at := Some now\<rparr>"

definition find_device :: "string \<Rightarrow> nat \<Rightarrow> db \<Rightarrow> device option" where
  "find_device user dev s =
     List.find (\<lambda>d. connected_device_id d = dev \<and> user_id d = user) (connectedDevice s)"

text \<open>
  \<^verbatim>\<open>syncDeviceData(user_id, deviceId, activityData)\<close> at the instant \<open>now\<close>. The
  payload carries no date: the key is the UTC date of \<open>now\<close>.
\<close>

definition syncDeviceData ::
  "string \<Rightarrow> nat \<Rightarrow> ActivityData \<Rightarrow> instant \<Rightarrow> db \<Rightarrow> (error + summary) \<times> db" where
  "syncDeviceData user dev activityData now s =
     (case find_device user dev s of
        None \<Rightarrow> (Inl Failed_to_sync_device_data, s)
      | Some device \<Rightarrow>
          (let today = utc_day now;
               (activitySummary, rows) =
                  upsert_summary (user, dev, today)
                    (update_data activityData (RawActivity activityData) now)
                    (create_data user dev today activityData (RawActivity activityData)
                       (device_name device) now)
                    (dailyActivitySummary s)
           in (Inr activitySummary,
               s\<lparr>dailyActivitySummary := rows,
                 connectedDevice := update_device dev (touch_device now) (connectedDevice s)\<rparr>)))"

text \<open>The loop of \<^verbatim>\<open>bulkSyncDeviceData\<close>: an element whose upsert throws is skipped.\<close>

fun bulk_loop ::
  "string \<Rightarrow> nat \<Rightarrow> string \<Rightarrow> instant \<Rightarrow> DayData list \<Rightarrow> summary list \<times> summary list
     \<Rightarrow> summary list \<times> summary list" where
  "bulk_loop user dev name now [] acc = acc"
| "bulk_loop user dev name now (dayData # rest) (results, rows) =
     (case p_date dayData of
        Valid d \<Rightarrow>
          (let (activitySummary, rows') =
                  upsert_summary (user, dev, d)
                    (update_data dayData (RawDay dayData) now)
                    (create_data user dev d dayData (RawDay dayData) name now)
                    rows
           in bulk_loop user dev name now rest (results @ [activitySummary], rows'))
      | _ \<Rightarrow> bulk_loop user dev name now rest (results, rows))"

definition bulkSyncDeviceData ::
  "string \<Rightarrow> nat \<Rightarrow> DayData list \<Rightarrow> instant \<Rightarrow> db \<Rightarrow> (error + summary list) \<times> db" where
  "bulkSyncDeviceData user dev activityDataArray now s =
     (case find_device user dev s of
        None \<Rightarrow> (Inl Failed_to_bulk_sync_device_data, s)
      | Some device \<Rightarrow>
          (let (results, rows) =
                  bulk_loop user dev (device_name device) now activityDataArray
                    ([], dailyActivitySummary s)
           in (Inr results,
               s\<lparr>dailyActivitySummary := rows,
                 connectedDevice := update_device dev (touch_device now) (connectedDevice s)\<rparr>)))"

text \<open>
  The sample payload of the \<open>k\<close>-th day of the initial sync; \<open>rnd\<close> lists the values
  of \<^verbatim>\<open>Math.random()\<close>, doubles in \<open>[0, 1)\<close>, in the order they are drawn, six a
  day. Each product and each sum is rounded; none is near overflow.
\<close>

definition sampleData :: "(nat \<Rightarrow> rat) \<Rightarrow> nat \<Rightarrow> ActivityData" where
  "sampleData rnd k =
     \<lparr>p_steps = Some (fl (of_int \<lfloor>fl (rnd (6 * k) * 5000)\<rfloor> + 5000)),
      caloriesBurned = Some (fl (of_int \<lfloor>fl (rnd (6 * k + 1) * 300)\<rfloor> + 200)),
      activeMinutes = Some (fl (of_int \<lfloor>fl (rnd (6 * k + 2) * 60)\<rfloor> + 30)),
      bmr = Some 1800,
      heartRate = Some (fl (of_int \<lfloor>fl (rnd (6 * k + 3) * 40)\<rfloor> + 60)),
      weight = Some (fl (70 + fl (rnd (6 * k + 4) * 10))),
      bodyFat = None,
      sleepHours = None,
      distance = Some (fl (fl (rnd (6 * k + 5) * 5) + 2))\<rparr>"

text \<open>The last seven calendar dates, oldest first, today last.\<close>

definition backfill_dates :: "instant \<Rightarrow> day list" where
  "backfill_dates now = map (\<lambda>i. utc_day now - int i) (rev [0..<7])"

text \<open>
  The second loop of \<^verbatim>\<open>performInitialSync\<close>. The loop variable \<^verbatim>\<open>date\<close> is used
  in the warning message only; the payload goes to \<^verbatim>\<open>syncDeviceData\<close> without it.
  The \<open>k\<close>-th sync runs at the instant \<open>clock k\<close>.
\<close>

fun initial_sync_loop ::
  "string \<Rightarrow> nat \<Rightarrow> (nat \<Rightarrow> instant) \<Rightarrow> (nat \<Rightarrow> rat) \<Rightarrow> nat \<Rightarrow> day list \<Rightarrow> nat \<times> db \<Rightarrow> nat \<times> db" where
  "initial_sync_loop user dev clock rnd k [] acc = acc"
| "initial_sync_loop user dev clock rnd k (d # ds) (syncedDays, s) =
     (case syncDeviceData user dev (sampleData rnd k) (clock k) s of
        (Inr _, s') \<Rightarrow> initial_sync_loop user dev clock rnd (Suc k) ds (Suc syncedDays, s')
      | (Inl _, s') \<Rightarrow> initial_sync_loop user dev clock rnd (Suc k) ds (syncedDays, s'))"

definition performInitialSync ::
  "string \<Rightarrow> nat \<Rightarrow> string \<Rightarrow> instant \<Rightarrow> (nat \<Rightarrow> instant) \<Rightarrow> (nat \<Rightarrow> rat) \<Rightarrow> db \<Rightarrow> db" where
  "performInitialSync user dev deviceType now clock rnd s =
     snd (initial_sync_loop user dev clock rnd 0 (backfill_dates now) (0, s))"

subsection \<open>Device registry\<close>

definition validDeviceTypes :: "string list" where
  "validDeviceTypes =
     [''APPLE_HEALTH'', ''GOOGLE_FIT'', ''FITBIT'', ''GARMIN'', ''WHOOP'', ''SAMSUNG_HEALTH'',
      ''POLAR'', ''SUUNTO'', ''WITHINGS'', ''OURA'', ''AMAZFIT'', ''HUAWEI_HEALTH'']"

text \<open>\<^verbatim>\<open>token ? this.encryptToken(token) : null\<close> (or \<^verbatim>\<open>: undefined\<close>).\<close>

definition encrypt_if_given :: "string option \<Rightarrow> string option" where
  "encrypt_if_given t = (if truthy t then map_option encryptToken t else None)"

definition expiry_if_given :: "string option \<Rightarrow> instant \<Rightarrow> instant option" where
  "expiry_if_given t now = (if truthy t then Some (now + 3600000) else None)"

text \<open>
  \<^verbatim>\<open>connectDevice\<close>. The device returned is the row as the update or the create
  wrote it, before the initial sync touches it.
\<close>

definition connectDevice ::
  "string \<Rightarrow> string \<Rightarrow> string \<Rightarrow> string option \<Rightarrow> string option \<Rightarrow> instant
     \<Rightarrow> (nat \<Rightarrow> instant) \<Rightarrow> (nat \<Rightarrow> rat) \<Rightarrow> db \<Rightarrow> (error + device) \<times> db" where
  "connectDevice user deviceType deviceName accessToken refreshToken now clock rnd s =
     (if deviceType \<notin> set validDeviceTypes then (Inl Failed_to_connect_device, s)
      else case List.find (\<lambda>d. user_id d = user \<and> device_type d = deviceType)
                  (connectedDevice s) of
        Some existingDevice \<Rightarrow>
          (let updatedDevice = existingDevice
                 \<lparr>device_name := deviceName,
                  connection_status := CONNECTED,
                  last_sync_time := Some now,
                  access_token_encrypted := encrypt_if_given accessToken,
                  refresh_token_encrypted := encrypt_if_given refreshToken,
                  token_expires_at := expiry_if_given accessToken now,
                  updated_at := Some now\<rparr>;
               s1 = s\<lparr>connectedDevice :=
                        update_device (connected_device_id existingDevice)
                          (\<lambda>d. d\<lparr>device_name := deviceName,
                                  connection_status := CONNECTED,
                                  last_sync_time := Some now,
                                  access_token_encrypted := encrypt_if_given accessToken,
                                  refresh_token_encrypted := encrypt_if_given refreshToken,
                                  token_expires_at := expiry_if_given accessToken now,
                                  updated_at := Some now\<rparr>)
                          (connectedDevice s)\<rparr>
           in (Inr updatedDevice,
               performInitialSync user (connected_device_id updatedDevice) deviceType
                 now clock rnd s1))
      | None \<Rightarrow>
          (let newDevice =
                 \<lparr>connected_device_id = next_id s,
                  user_id = user,
                  device_name = deviceName,
                  device_type = deviceType,
                  connection_status = CONNECTED,
                  last_sync_time = Some now,
                  is_primary_device = True,
                  access_token_encrypted = encrypt_if_given accessToken,
                  refresh_token_encrypted = encrypt_if_given refreshToken,
                  token_expires_at = expiry_if_given accessToken now,
                  updated_at = None\<rparr>;
               s1 = s\<lparr>connectedDevice := connectedDevice s @ [newDevice],
                      next_id := Suc (next_id s)\<rparr>
           in (Inr newDevice,
               performInitialSync user (connected_device_id newDevice) deviceType
                 now clock rnd s1)))"

definition disconnectDevice :: "string \<Rightarrow> nat \<Rightarrow> instant \<Rightarrow> db \<Rightarrow> (error + unit) \<times> db" where
  "disconnectDevice user dev now s =
     (case find_device user dev s of
        None \<Rightarrow> (Inl Failed_to_disconnect_device, s)
      | Some device \<Rightarrow>
          (Inr (),
           s\<lparr>connectedDevice :=
               update_device dev
                 (\<lambda>d. d\<lparr>connection_status := DISCONNECTED,
                         access_token_encrypted := None,
                         refresh_token_encrypted := None,
                         token_expires_at := None,
                         updated_at := Some now\<rparr>)
                 (connectedDevice s)\<rparr>))"

text \<open>
  \<^verbatim>\<open>updateDeviceTokens\<close>: an \<^verbatim>\<open>updateMany\<close> over the rows of this user with this
  identifier. A token that is not given makes its fields \<^verbatim>\<open>undefined\<close>.
\<close>

definition updateDeviceTokens ::
  "string \<Rightarrow> nat \<Rightarrow> string option \<Rightarrow> string option \<Rightarrow> instant \<Rightarrow> db \<Rightarrow> db" where
  "updateDeviceTokens user dev accessToken refreshToken now s =
     s\<lparr>connectedDevice :=
         map (\<lambda>d. if connected_device_id d = dev \<and> user_id d = user
                  then d\<lparr>access_token_encrypted :=
                            set_unless_undefined (encrypt_if_given accessToken)
                              (access_token_encrypted d),
                          refresh_token_encrypted :=
                            set_unless_undefined (encrypt_if_given refreshToken)
                              (refresh_token_encrypted d),
                          token_expires_at :=
                            set_unless_undefined (expiry_if_given accessToken now)
                              (token_expires_at d),
                          updated_at := Some now\<rparr>
                  else d)
           (connectedDevice s)\<rparr>"

subsection \<open>HealthKit path\<close>

text \<open>\<^verbatim>\<open>HealthKitService.saveHealthData\<close>; an error of the upsert is thrown on as it is.\<close>

definition saveHealthData ::
  "string \<Rightarrow> nat \<Rightarrow> HealthKitData \<Rightarrow> instant \<Rightarrow> db \<Rightarrow> (error + summary) \<times> db" where
  "saveHealthData userId deviceId data now s =
     (case hk_date data of
        Valid d \<Rightarrow>
          (let (activitySummary, rows) =
                  upsert_summary (userId, deviceId, d)
                    (\<lambda>r. r\<lparr>steps := Some (hk_steps data),
                            calories_burned := Some (hk_caloriesBurned data),
                            active_minutes := Some (hk_activeMinutes data),
                            heart_rate_avg := set_unless_undefined (hk_heartRate data) (heart_rate_avg r),
                            weight_kg := set_unless_undefined (hk_weight data) (weight_kg r),
                            distance_km := set_unless_undefined (hk_distance data) (distance_km r),
                            sync_timestamp := now,
                            s_updated_at := Some now\<rparr>)
                    \<lparr>s_user_id = userId, device_id = deviceId, date = d,
                     steps = Some (hk_steps data),
                     calories_burned = Some (hk_caloriesBurned data),
                     active_minutes = Some (hk_activeMinutes data),
                     bmr_estimate = None,
                     heart_rate_avg = hk_heartRate data,
                     weight_kg = hk_weight data,
                     body_fat_percentage = None,
                     sleep_hours = None,
                     distance_km = hk_distance data,
                     source_device = ''HealthKit'',
                     sync_timestamp = now,
                     s_updated_at = None,
                     raw_data = RawHealthKit data\<rparr>
                    (dailyActivitySummary s)
           in (Inr activitySummary, s\<lparr>dailyActivitySummary := rows\<rparr>))
      | _ \<Rightarrow> (Inl Invalid_date_value, s))"

text \<open>
  The first statement of \<^verbatim>\<open>HealthKitService.syncWithDevice\<close>: an upsert of the
  device on its unique key (user, device type). The device type is stored as it comes.
\<close>

definition upsert_device :: "string \<Rightarrow> string \<Rightarrow> instant \<Rightarrow> db \<Rightarrow> device \<times> db" where
  "upsert_device userId deviceType now s =
     (case List.find (\<lambda>d. user_id d = userId \<and> device_type d = deviceType)
             (connectedDevice s) of
        Some existing \<Rightarrow>
          (touch_device now existing,
           s\<lparr>connectedDevice :=
               map (\<lambda>d. if user_id d = userId \<and> device_type d = deviceType
                        then touch_device now d else d)
                 (connectedDevice s)\<rparr>)
      | None \<Rightarrow>
          (let created =
                 \<lparr>connected_device_id = next_id s,
                  user_id = userId,
                  device_name = deviceType,
                  device_type = deviceType,
                  connection_status = CONNECTED,
                  last_sync_time = Some now,
                  is_primary_device = True,
                  access_token_encrypted = None,
                  refresh_token_encrypted = None,
                  token_expires_at = None,
                  updated_at = None\<rparr>
           in (created,
               s\<lparr>connectedDevice := connectedDevice s @ [created],
                 next_id := Suc (next_id s)\<rparr>)))"

text \<open>
  \<^verbatim>\<open>HealthKitService.syncWithDevice\<close>: the upsert of the device, then the save of
  the day if the payload has a date and steps. An error of the save is thrown on after
  the device has been written.
\<close>

definition syncWithDevice ::
  "string \<Rightarrow> string \<Rightarrow> DayData \<Rightarrow> instant \<Rightarrow> db \<Rightarrow> (error + device) \<times> db" where
  "syncWithDevice userId deviceType deviceData now s =
     (let (device, s1) = upsert_device userId deviceType now s
      in if p_date deviceData \<noteq> Absent \<and> p_steps deviceData \<noteq> None
         then (case saveHealthData userId (connected_device_id device)
                      \<lparr>hk_steps = or0 (p_steps deviceData),
                       hk_caloriesBurned = or0 (caloriesBurned deviceData),
                       hk_activeMinutes = or0 (activeMinutes deviceData),
                       hk_heartRate = heartRate deviceData,
                       hk_weight = weight deviceData,
                       hk_distance = distance deviceData,
                       hk_date = p_date deviceData\<rparr> now s1 of
                 (Inl e, s2) \<Rightarrow> (Inl e, s2)
               | (Inr _, s2) \<Rightarrow> (Inr device, s2))
         else (Inr device, s1))"

subsection \<open>Balance calculator\<close>

datatype balance_status = balanced | slight_imbalance | significant_imbalance

record DailyBalance =
  caloriesIn :: number
  caloriesOut :: number
  balance :: number
  balanceStatus :: balance_status

text \<open>
  \<^verbatim>\<open>findFirst({ where, orderBy: { sync_timestamp: "desc" } })\<close>: among the rows that
  match, one with the greatest sync timestamp; between rows with equal timestamps the
  model takes the earlier row of the table.
\<close>

fun latest_synced :: "summary list \<Rightarrow> summary option" where
  "latest_synced [] = None"
| "latest_synced (r # rs) =
     (case latest_synced rs of
        None \<Rightarrow> Some r
      | Some b \<Rightarrow> if sync_timestamp b > sync_timestamp r then Some b else Some r)"

text \<open>
  The time zone of the server, as the two readings of the offset of local time that the
  language defines: the offset at an instant, and the offset at a local time (where a
  local time is repeated or skipped, the offset before the transition).
\<close>

record time_zone =
  tza_utc :: "instant \<Rightarrow> int"
  tza_local :: "int \<Rightarrow> int"

definition utc_zone :: time_zone where
  "utc_zone = \<lparr>tza_utc = (\<lambda>t. 0), tza_local = (\<lambda>t. 0)\<rparr>"

text \<open>
  \<^verbatim>\<open>endDate.setDate(endDate.getDate() + 1)\<close>: the same local time of day on the next
  local calendar day.
\<close>

definition next_local_day :: "time_zone \<Rightarrow> instant \<Rightarrow> instant" where
  "next_local_day tz t =
     (let local = t + tza_utc tz t;
          moved = local + msPerDay
      in moved - tza_local tz moved)"

definition classify :: "number \<Rightarrow> balance_status" where
  "classify balancePercent =
     (if nle balancePercent one_tenth then balanced
      else if nle balancePercent (Val (1 / 4)) then slight_imbalance
      else significant_imbalance)"

text \<open>
  \<^verbatim>\<open>getDailyBalance(user_id, date)\<close>, the date already read as a calendar date. The
  meals of the day are those created from the UTC midnight of the date up to, and not
  at, the instant one local calendar day later.
\<close>

definition getDailyBalance :: "time_zone \<Rightarrow> string \<Rightarrow> day \<Rightarrow> db \<Rightarrow> DailyBalance option" where
  "getDailyBalance tz user d s =
     (let startDate = d * msPerDay;
          endDate = next_local_day tz (d * msPerDay);
          day_meals = filter (\<lambda>m. m_user_id m = user \<and> startDate \<le> created_at m
                                   \<and> created_at m < endDate) (meals s);
          cIn = foldl (\<lambda>sum m. nadd sum (Val (or0 (calories m)))) (Val 0) day_meals;
          activityData = latest_synced
             (filter (\<lambda>r. s_user_id r = user \<and> date r = d) (dailyActivitySummary s))
      in case activityData of
           None \<Rightarrow> None
         | Some a \<Rightarrow>
             (let cOut = nadd (Val (or0 (calories_burned a))) (Val (or0 (bmr_estimate a)));
                  bal = nsub cIn cOut;
                  balancePercent = (if nlt (Val 0) cOut then ndiv (nabs bal) cOut else Val 0)
              in Some \<lparr>caloriesIn = nround cIn, caloriesOut = nround cOut,
                        balance = nround bal, balanceStatus = classify balancePercent\<rparr>))"

subsection \<open>Analytics: trend of a metric series\<close>

datatype trend = increasing | decreasing | stable

text \<open>\<^verbatim>\<open>xs.reduce((sum, val) => sum + val, 0) / xs.length\<close>.\<close>

definition average :: "rat list \<Rightarrow> number" where
  "average xs =
     ndiv (foldl (\<lambda>sum val. nadd sum (Val val)) (Val 0) xs) (Val (of_nat (length xs)))"

definition calculateTrend :: "rat list \<Rightarrow> trend" where
  "calculateTrend vs =
     (if length vs < 2 then stable
      else let firstHalf = take (length vs div 2) vs;
               secondHalf = drop (length vs div 2) vs;
               firstAvg = average firstHalf;
               secondAvg = average secondHalf;
               difference = nsub secondAvg firstAvg;
               threshold = nmul firstAvg one_tenth
           in if nlt threshold difference then increasing
              else if nlt difference (nneg threshold) then decreasing
              else stable)"

subsection \<open>The specification's wording, for comparison\<close>

text \<open>
  The status as the specification words it, over exact arithmetic: by the ratio
  \<open>|in - out| / out\<close> against 0.1 and 0.25.
\<close>

definition claimed_status :: "rat \<Rightarrow> rat \<Rightarrow> balance_status" where
  "claimed_status cIn cOut =
     (if \<bar>cIn - cOut\<bar> / cOut \<le> 1 / 10 then balanced
      else if \<bar>cIn - cOut\<bar> / cOut \<le> 1 / 4 then slight_imbalance
      else significant_imbalance)"

text \<open>
  The conditions of the trend as the specification words them, over exact arithmetic:
  the difference of the exact averages of the halves against a tenth of the first.
\<close>

definition exact_average :: "rat list \<Rightarrow> rat" where
  "exact_average xs = sum_list xs / of_nat (length xs)"

definition claimed_increasing :: "rat list \<Rightarrow> bool" where
  "claimed_increasing vs =
     (exact_average (drop (length vs div 2) vs) - exact_average (take (length vs div 2) vs)
        > (1 / 10) * exact_average (take (length vs div 2) vs))"

definition claimed_decreasing :: "rat list \<Rightarrow> bool" where
  "claimed_decreasing vs =
     (exact_average (drop (length vs div 2) vs) - exact_average (take (length vs div 2) vs)
        < - ((1 / 10) * exact_average (take (length vs div 2) vs)))"

text \<open>
  A zone with one transition: at 2023-10-29T01:00:00Z local time falls back from two hours
  ahead of UTC to one hour ahead.
\<close>

definition autumn_zone :: time_zone where
  "autumn_zone =
     \<lparr>tza_utc = (\<lambda>t. if t < 1698541200000 then 7200000 else 3600000),
      tza_local = (\<lambda>l. if l < 1698541200000 + 7200000 then 7200000 else 3600000)\<rparr>"

subsection \<open>Runs of operations and observations\<close>






text \<open>The operations that write to the device registry or the ledger.\<close>

datatype operation =
    Connect string string string "string option" "string option" instant
      "nat \<Rightarrow> instant" "nat \<Rightarrow> rat"
  | Disconnect string nat instant
  | Sync string nat ActivityData instant
  | BulkSync string nat "DayData list" instant
  | UpdateTokens string nat "string option" "string option" instant
  | HealthKitSync string string DayData instant

fun apply_operation :: "operation \<Rightarrow> db \<Rightarrow> db" where
  "apply_operation (Connect user deviceType deviceName accessToken refreshToken now clock rnd) s =
     snd (connectDevice user deviceType deviceName accessToken refreshToken now clock rnd s)"
| "apply_operation (Disconnect user dev now) s = snd (disconnectDevice user dev now s)"
| "apply_operation (Sync user dev activityData now) s =
     snd (syncDeviceData user dev activityData now s)"
| "apply_operation (BulkSync user dev activityDataArray now) s =
     snd (bulkSyncDeviceData user dev activityDataArray now s)"
| "apply_operation (UpdateTokens user dev accessToken refreshToken now) s =
     updateDeviceTokens user dev accessToken refreshToken now s"
| "apply_operation (HealthKitSync user deviceType deviceData now) s =
     snd (syncWithDevice user deviceType deviceData now s)"

text \<open>A run of operations, each applied to the tables the one before left, whether it
  returned or threw.\<close>

fun run :: "operation list \<Rightarrow> db \<Rightarrow> db" where
  "run [] s = s"
| "run (op # ops) s = run ops (apply_operation op s)"

definition device_count :: "string \<Rightarrow> string \<Rightarrow> db \<Rightarrow> nat" where
  "device_count user deviceType s =
     length (filter (\<lambda>d. user_id d = user \<and> device_type d = deviceType) (connectedDevice s))"

definition device_keys :: "db \<Rightarrow> (string \<times> string) list" where
  "device_keys s = map (\<lambda>d. (user_id d, device_type d)) (connectedDevice s)"

definition ledger_keys :: "db \<Rightarrow> (string \<times> nat \<times> day) list" where
  "ledger_keys s = map summary_key (dailyActivitySummary s)"

text \<open>The identifiers of the rows of the registry.\<close>

definition device_ids :: "db \<Rightarrow> nat list" where
  "device_ids s = map connected_device_id (connectedDevice s)"

text \<open>The identifiers in the registry are distinct and were all given out already.\<close>

definition ids_fresh :: "db \<Rightarrow> bool" where
  "ids_fresh s = (distinct (device_ids s) \<and> list_all (\<lambda>i. i < next_id s) (device_ids s))"

text \<open>From one state to the next, the identifiers stay or the next one is given out.\<close>

definition ids_step :: "db \<Rightarrow> db \<Rightarrow> bool" where
  "ids_step s s' =
     (device_ids s' = device_ids s \<and> next_id s' = next_id s \<or>
      device_ids s' = device_ids s @ [next_id s] \<and> next_id s' = Suc (next_id s))"

subsection \<open>Example data\<close>

definition example_summary :: "rat \<Rightarrow> rat \<Rightarrow> summary" where
  "example_summary burned basal =
     \<lparr>s_user_id = ''alice'', device_id = 0, date = 19675,
      steps = Some 8000, calories_burned = Some burned, active_minutes = Some 45,
      bmr_estimate = Some basal, heart_rate_avg = None, weight_kg = None,
      body_fat_percentage = None, sleep_hours = None, distance_km = None,
      source_device = ''Charge 5'', sync_timestamp = 1700000000000, s_updated_at = None,
      raw_data = RawActivity \<lparr>p_steps = Some 8000, caloriesBurned = Some burned,
        activeMinutes = Some 45, bmr = Some basal, heartRate = None, weight = None,
        bodyFat = None, sleepHours = None, distance = None\<rparr>\<rparr>"

definition example_db :: "rat \<Rightarrow> rat \<Rightarrow> rat \<Rightarrow> db" where
  "example_db eaten burned basal =
     \<lparr>connectedDevice = [],
      dailyActivitySummary = [example_summary burned basal],
      meals = [\<lparr>m_user_id = ''alice'', created_at = 1699950000000, calories = Some eaten\<rparr>],
      next_id = 1\<rparr>"

definition empty_db :: db where
  "empty_db = \<lparr>connectedDevice = [], dailyActivitySummary = [], meals = [], next_id = 0\<rparr>"

text \<open>
  The tables after \<^verbatim>\<open>connectDevice('alice', 'FITBIT', 'Charge 5', 'tok', 'ref')\<close> on the
  empty database (see \<open>alice_fitbit_db_reached\<close> below).
\<close>

definition alice_fitbit_db :: db where
  "alice_fitbit_db =
     \<lparr>connectedDevice =
        [\<lparr>connected_device_id = 0, user_id = ''alice'', device_name = ''Charge 5'',
          device_type = ''FITBIT'', connection_status = CONNECTED,
          last_sync_time = Some 1700000000006, is_primary_device = True,
          access_token_encrypted = Some ''dG9r'', refresh_token_encrypted = Some ''cmVm'',
          token_expires_at = Some 1700003600000, updated_at = Some 1700000000006\<rparr>],
      dailyActivitySummary =
        [\<lparr>s_user_id = ''alice'', device_id = 0, date = 19675,
          steps = Some 7500, calories_burned = Some 350, active_minutes = Some 60,
          bmr_estimate = Some 1800, heart_rate_avg = Some 80, weight_kg = Some 75,
          body_fat_percentage = None, sleep_hours = None, distance_km = Some (9 / 2),
          source_device = ''Charge 5'', sync_timestamp = 1700000000006,
          s_updated_at = Some 1700000000006,
          raw_data = RawActivity
            \<lparr>p_steps = Some 7500, caloriesBurned = Some 350, activeMinutes = Some 60,
             bmr = Some 1800, heartRate = Some 80, weight = Some 75, bodyFat = None,
             sleepHours = None, distance = Some (9 / 2)\<rparr>\<rparr>],
      meals = [],
      next_id = 1\<rparr>"

definition morning_payload :: ActivityData where
  "morning_payload =
     \<lparr>p_steps = Some 3000, caloriesBurned = Some 120, activeMinutes = Some 20,
      bmr = Some 1700, heartRate = Some 72, weight = Some 70, bodyFat = None,
      sleepHours = Some 7, distance = Some 2\<rparr>"

definition evening_payload :: ActivityData where
  "evening_payload =
     \<lparr>p_steps = Some 9000, caloriesBurned = Some 410, activeMinutes = Some 65,
      bmr = None, heartRate = None, weight = None, bodyFat = None,
      sleepHours = None, distance = Some 6\<rparr>"


text \<open>
  A run: Alice connects a Fitbit, a HealthKit sync registers a Fitbit for Bob, Alice syncs
  a payload, her tokens are renewed, and she disconnects.
\<close>

definition later_operations :: "operation list" where
  "later_operations =
     [HealthKitSync ''bob'' ''FITBIT''
        \<lparr>p_steps = None, caloriesBurned = None, activeMinutes = None, bmr = None,
         heartRate = None, weight = None, bodyFat = None, sleepHours = None, distance = None,
         p_date = Absent\<rparr> 1700000100000,
      Sync ''alice'' 0 morning_payload 1700000200000,
      UpdateTokens ''alice'' 0 (Some ''new'') None 1700000300000,
      Disconnect ''alice'' 0 1700000500000]"

definition example_run :: "operation list" where
  "example_run =
     Connect ''alice'' ''FITBIT'' ''Charge 5'' (Some ''tok'') (Some ''ref'') 1700000000000
       (\<lambda>k. 1700000000000 + int k) (\<lambda>i. 1 / 2) # later_operations"

text \<open>Bob's row after the run.\<close>

definition bob_row :: device where
  "bob_row =
     \<lparr>connected_device_id = 1, user_id = ''bob'', device_name = ''FITBIT'',
      device_type = ''FITBIT'', connection_status = CONNECTED,
      last_sync_time = Some 1700000100000, is_primary_device = True,
      access_token_encrypted = None, refresh_token_encrypted = None,
      token_expires_at = None, updated_at = None\<rparr>"

section \<open>Verified properties\<close>

subsection \<open>Auxiliary facts\<close>

lemma latest_synced_None: "latest_synced rs = None \<longleftrightarrow> rs = []"
  by (induction rs) (auto split: option.splits)

lemma latest_synced_Some:
  "latest_synced rs = Some a \<Longrightarrow> a \<in> set rs \<and> (\<forall>r\<in>set rs. sync_timestamp r \<le> sync_timestamp a)"
proof (induction rs arbitrary: a)
  case Nil
  then show ?case by simp
next
  case (Cons r rs)
  show ?case
  proof (cases "latest_synced rs")
    case None
    with Cons.prems show ?thesis by (simp add: latest_synced_None)
  next
    case (Some b)
    with Cons.IH [of b] Cons.prems show ?thesis
      by (auto split: if_splits)
  qed
qed

lemma one_tenth_value: "one_tenth = Val (3602879701896397 / 36028797018963968)"
  by code_simp

lemma double_sums:
  "nadd (round_double (1 / 10)) (round_double (2 / 10)) = Val (1351079888211149 / 4503599627370496)"
  "round_double (1 / 3) = Val (6004799503160661 / 18014398509481984)"
  by code_simp+

lemma classify_iff:
  "(classify p = balanced \<longleftrightarrow> nle p one_tenth) \<and>
   (classify p = slight_imbalance \<longleftrightarrow> \<not> nle p one_tenth \<and> nle p (Val (1 / 4))) \<and>
   (classify p = significant_imbalance \<longleftrightarrow> \<not> nle p one_tenth \<and> \<not> nle p (Val (1 / 4)))"
  by (auto simp: classify_def)

lemma foldl_nadd_map:
  "foldl (\<lambda>sum m. nadd sum (Val (f m))) a ms = foldl nadd a (map (\<lambda>m. Val (f m)) ms)"
  by (induction ms arbitrary: a) simp_all

lemma next_local_day_utc: "next_local_day utc_zone t = t + 86400000"
  by (simp add: next_local_day_def utc_zone_def msPerDay_def)

lemma next_local_day_autumn:
  "next_local_day autumn_zone (19659 * 86400000) = 19659 * 86400000 + 25 * 3600000"
  by code_simp

lemma calculateTrend_general:
  "calculateTrend vs =
     (if length vs < 2 then stable
      else let firstAvg = ndiv (foldl nadd (Val 0) (map Val (take (length vs div 2) vs)))
                            (Val (of_nat (length vs div 2)));
               secondAvg = ndiv (foldl nadd (Val 0) (map Val (drop (length vs div 2) vs)))
                             (Val (of_nat (length vs - length vs div 2)));
               difference = nsub secondAvg firstAvg;
               threshold = nmul firstAvg one_tenth
           in if nlt threshold difference then increasing
              else if nlt difference (nneg threshold) then decreasing
              else stable)"
proof -
  have l1: "length (take (length vs div 2) vs) = length vs div 2"
    by simp
  have l2: "length (drop (length vs div 2) vs) = length vs - length vs div 2"
    by simp
  have f: "foldl (\<lambda>sum val. nadd sum (Val val)) a xs = foldl nadd a (map Val xs)" for a xs
    by (induction xs arbitrary: a) simp_all
  show ?thesis
    by (simp only: calculateTrend_def average_def Let_def l1 l2 f)
qed

subsection \<open>Balance calculator\<close>

text \<open>
  C3, in double arithmetic. \<^verbatim>\<open>getDailyBalance\<close> returns null exactly when the user
  has no activity record for the date. Otherwise it returns a balance computed from a
  record of that date with the greatest sync timestamp. Calories in are the sum, from the
  left, of the calories of the meals created from the UTC midnight of the date up to one
  local calendar day later; calories out are calories burned plus BMR estimate; each sum,
  the difference and the ratio \<open>|in - out| / out\<close> are rounded to the nearest double.
  The three outputs are rounded to integers, and when calories out are positive the
  status is balanced iff the ratio is at most the double nearest 0.1, slight imbalance iff
  it is above that and at most 0.25, significant imbalance otherwise.
\<close>

theorem getDailyBalance_classification:
  "(getDailyBalance tz user d s = None \<longleftrightarrow>
      list_all (\<lambda>r. \<not> (s_user_id r = user \<and> date r = d)) (dailyActivitySummary s)) \<and>
   (\<forall>b. getDailyBalance tz user d s = Some b \<longrightarrow>
      (\<exists>a\<in>set (dailyActivitySummary s). s_user_id a = user \<and> date a = d \<and>
         (\<forall>r\<in>set (dailyActivitySummary s).
             s_user_id r = user \<and> date r = d \<longrightarrow> sync_timestamp r \<le> sync_timestamp a) \<and>
         (let cIn = foldl nadd (Val 0) (map (\<lambda>m. Val (or0 (calories m)))
                      (filter (\<lambda>m. m_user_id m = user \<and> d * 86400000 \<le> created_at m
                                    \<and> created_at m < next_local_day tz (d * 86400000))
                         (meals s)));
              cOut = nadd (Val (or0 (calories_burned a))) (Val (or0 (bmr_estimate a)));
              ratio = ndiv (nabs (nsub cIn cOut)) cOut
          in caloriesIn b = nround cIn \<and> caloriesOut b = nround cOut \<and>
             balance b = nround (nsub cIn cOut) \<and>
             (nlt (Val 0) cOut \<longrightarrow>
                (balanceStatus b = balanced \<longleftrightarrow> nle ratio one_tenth) \<and>
                (balanceStatus b = slight_imbalance \<longleftrightarrow>
                   \<not> nle ratio one_tenth \<and> nle ratio (Val (1 / 4))) \<and>
                (balanceStatus b = significant_imbalance \<longleftrightarrow>
                   \<not> nle ratio one_tenth \<and> \<not> nle ratio (Val (1 / 4)))))))"
proof (intro conjI allI impI)
  let ?rows = "filter (\<lambda>r. s_user_id r = user \<and> date r = d) (dailyActivitySummary s)"
  have none: "getDailyBalance tz user d s = None \<longleftrightarrow> latest_synced ?rows = None"
    by (simp add: getDailyBalance_def Let_def split: option.splits)
  show "getDailyBalance tz user d s = None \<longleftrightarrow>
      list_all (\<lambda>r. \<not> (s_user_id r = user \<and> date r = d)) (dailyActivitySummary s)"
    unfolding none latest_synced_None by (simp add: filter_empty_conv list_all_iff)
  fix b
  assume b: "getDailyBalance tz user d s = Some b"
  then obtain a where a: "latest_synced ?rows = Some a"
    using none by (cases "latest_synced ?rows") auto
  from latest_synced_Some [OF a]
  have mem: "a \<in> set (dailyActivitySummary s)" "s_user_id a = user" "date a = d"
    and mx: "\<forall>r\<in>set (dailyActivitySummary s).
             s_user_id r = user \<and> date r = d \<longrightarrow> sync_timestamp r \<le> sync_timestamp a"
    by auto
  from b a have beq: "b = (let cIn = foldl nadd (Val 0) (map (\<lambda>m. Val (or0 (calories m)))
                      (filter (\<lambda>m. m_user_id m = user \<and> d * 86400000 \<le> created_at m
                                    \<and> created_at m < next_local_day tz (d * 86400000))
                         (meals s)));
              cOut = nadd (Val (or0 (calories_burned a))) (Val (or0 (bmr_estimate a)))
          in \<lparr>caloriesIn = nround cIn, caloriesOut = nround cOut,
              balance = nround (nsub cIn cOut),
              balanceStatus = classify (if nlt (Val 0) cOut
                                        then ndiv (nabs (nsub cIn cOut)) cOut else Val 0)\<rparr>)"
    by (simp add: getDailyBalance_def Let_def foldl_nadd_map msPerDay_def)
  show "\<exists>a\<in>set (dailyActivitySummary s). s_user_id a = user \<and> date a = d \<and>
         (\<forall>r\<in>set (dailyActivitySummary s).
             s_user_id r = user \<and> date r = d \<longrightarrow> sync_timestamp r \<le> sync_timestamp a) \<and>
         (let cIn = foldl nadd (Val 0) (map (\<lambda>m. Val (or0 (calories m)))
                      (filter (\<lambda>m. m_user_id m = user \<and> d * 86400000 \<le> created_at m
                                    \<and> created_at m < next_local_day tz (d * 86400000))
                         (meals s)));
              cOut = nadd (Val (or0 (calories_burned a))) (Val (or0 (bmr_estimate a)));
              ratio = ndiv (nabs (nsub cIn cOut)) cOut
          in caloriesIn b = nround cIn \<and> caloriesOut b = nround cOut \<and>
             balance b = nround (nsub cIn cOut) \<and>
             (nlt (Val 0) cOut \<longrightarrow>
                (balanceStatus b = balanced \<longleftrightarrow> nle ratio one_tenth) \<and>
                (balanceStatus b = slight_imbalance \<longleftrightarrow>
                   \<not> nle ratio one_tenth \<and> nle ratio (Val (1 / 4))) \<and>
                (balanceStatus b = significant_imbalance \<longleftrightarrow>
                   \<not> nle ratio one_tenth \<and> \<not> nle ratio (Val (1 / 4)))))"
    apply (rule bexI [OF _ mem(1)])
    using mem(2,3) mx
    apply (simp add: beq Let_def classify_iff)
    done
qed

lemma balance_examples:
  "getDailyBalance utc_zone ''alice'' 19675 (example_db 2000 200 1800) =
     Some \<lparr>caloriesIn = Val 2000, caloriesOut = Val 2000, balance = Val 0,
           balanceStatus = balanced\<rparr>"
  "getDailyBalance utc_zone ''alice'' 19675 (example_db 2500 200 1800) =
     Some \<lparr>caloriesIn = Val 2500, caloriesOut = Val 2000, balance = Val 500,
           balanceStatus = slight_imbalance\<rparr>"
  "getDailyBalance utc_zone ''alice'' 19675 (example_db 3000 200 1800) =
     Some \<lparr>caloriesIn = Val 3000, caloriesOut = Val 2000, balance = Val 1000,
           balanceStatus = significant_imbalance\<rparr>"
  "getDailyBalance utc_zone ''alice'' 19676 (example_db 2500 200 1800) = None"
  by code_simp+

theorem getDailyBalance_classification_witness:
  "getDailyBalance utc_zone ''alice'' 19675 (example_db 2000 200 1800) =
     Some \<lparr>caloriesIn = Val 2000, caloriesOut = Val 2000, balance = Val 0,
           balanceStatus = balanced\<rparr> \<and>
   getDailyBalance utc_zone ''alice'' 19675 (example_db 2500 200 1800) =
     Some \<lparr>caloriesIn = Val 2500, caloriesOut = Val 2000, balance = Val 500,
           balanceStatus = slight_imbalance\<rparr> \<and>
   getDailyBalance utc_zone ''alice'' 19675 (example_db 3000 200 1800) =
     Some \<lparr>caloriesIn = Val 3000, caloriesOut = Val 2000, balance = Val 1000,
           balanceStatus = significant_imbalance\<rparr> \<and>
   getDailyBalance utc_zone ''alice'' 19676 (example_db 2500 200 1800) = None"
  using getDailyBalance_classification [of utc_zone "''alice''" 19675 "example_db 2000 200 1800"]
        getDailyBalance_classification [of utc_zone "''alice''" 19675 "example_db 2500 200 1800"]
        getDailyBalance_classification [of utc_zone "''alice''" 19675 "example_db 3000 200 1800"]
        getDailyBalance_classification [of utc_zone "''alice''" 19676 "example_db 2500 200 1800"]
        balance_examples
  by simp

text \<open>
  Over exact arithmetic the thresholds are not met: with 2336 kcal in and 455.8 + 1413 out
  the exact ratio of the stored values is below 0.25 and the status is significant
  imbalance, and with 9350000000000010 in and 8500000000000009 out the exact ratio is
  above 0.1 and the status is balanced.
\<close>

theorem getDailyBalance_classification_counterexample:
  "map_option balanceStatus
     (getDailyBalance utc_zone ''alice'' 19675 (example_db 2336 (fl (4558 / 10)) 1413))
     = Some significant_imbalance \<and>
   claimed_status 2336 (fl (4558 / 10) + 1413) = slight_imbalance \<and>
   map_option balanceStatus
     (getDailyBalance utc_zone ''alice'' 19675 (example_db 9350000000000010 8500000000000009 0))
     = Some balanced \<and>
   claimed_status 9350000000000010 (8500000000000009 + 0) = slight_imbalance"
  by code_simp

text \<open>
  C2. Required: a record whose calories out are zero is treated as no data, never as
  balanced. Observed: \<^verbatim>\<open>getDailyBalance\<close> returns a result, and its status is
  balanced whatever was eaten; here 5000 kcal in, 0 out.
\<close>

theorem getDailyBalance_zero_out_is_balanced:
  "getDailyBalance utc_zone ''alice'' 19675 (example_db 5000 0 0) =
     Some \<lparr>caloriesIn = Val 5000, caloriesOut = Val 0, balance = Val 5000,
           balanceStatus = balanced\<rparr>"
  by code_simp

subsection \<open>Trend of a metric series\<close>

text \<open>
  C9, in double arithmetic and with the order of the tests. A series shorter than 2 is
  stable. Otherwise the series is split at \<open>length div 2\<close>; each half is summed from the
  left and divided by its length, the difference of the two averages and the threshold,
  the first average times the double nearest 0.1, are computed, each operation rounded to
  the nearest double. The trend is increasing iff the difference is above the threshold,
  decreasing iff it is not and the difference is below minus the threshold, and stable
  otherwise.
\<close>

theorem calculateTrend_trend:
  "(length vs < 2 \<longrightarrow> calculateTrend vs = stable) \<and>
   (2 \<le> length vs \<longrightarrow>
      (let firstAvg = ndiv (foldl nadd (Val 0) (map Val (take (length vs div 2) vs)))
                        (Val (of_nat (length vs div 2)));
           secondAvg = ndiv (foldl nadd (Val 0) (map Val (drop (length vs div 2) vs)))
                         (Val (of_nat (length vs - length vs div 2)));
           difference = nsub secondAvg firstAvg;
           threshold = nmul firstAvg one_tenth
       in (calculateTrend vs = increasing \<longleftrightarrow> nlt threshold difference) \<and>
          (calculateTrend vs = decreasing \<longleftrightarrow>
             \<not> nlt threshold difference \<and> nlt difference (nneg threshold)) \<and>
          (calculateTrend vs = stable \<longleftrightarrow>
             \<not> nlt threshold difference \<and> \<not> nlt difference (nneg threshold))))"
  unfolding calculateTrend_general Let_def by auto

lemma trend_examples:
  "calculateTrend [1000, 1000, 1000, 2000, 2000, 2000] = increasing"
  "calculateTrend [2000, 2000, 2000, 1000, 1000, 1000] = decreasing"
  "calculateTrend [1000, 1000] = stable"
  "calculateTrend [1000] = stable"
  by code_simp+

theorem calculateTrend_trend_witness:
  "calculateTrend [1000, 1000, 1000, 2000, 2000, 2000] = increasing \<and>
   calculateTrend [2000, 2000, 2000, 1000, 1000, 1000] = decreasing \<and>
   calculateTrend [1000, 1000] = stable \<and> calculateTrend [1000] = stable"
  using calculateTrend_trend [of "[1000, 1000, 1000, 2000, 2000, 2000]"]
        calculateTrend_trend [of "[2000, 2000, 2000, 1000, 1000, 1000]"]
        calculateTrend_trend [of "[1000, 1000]"] calculateTrend_trend [of "[1000]"]
        trend_examples
  by simp

text \<open>
  Over exact arithmetic the conditions are not met: the first series is decreasing though
  its exact difference equals minus a tenth of the first average, the second is increasing
  though its exact difference equals a tenth of it, and for the third, of negative values,
  both conditions hold and the first test wins.
\<close>

theorem calculateTrend_trend_counterexample:
  "calculateTrend [3000, 3000, 4000, 3000, 3000, 3000] = decreasing \<and>
   \<not> claimed_decreasing [3000, 3000, 4000, 3000, 3000, 3000] \<and>
   calculateTrend [24, 23, 23, 26, 26, 25] = increasing \<and>
   \<not> claimed_increasing [24, 23, 23, 26, 26, 25] \<and>
   calculateTrend [- 10, - 10] = increasing \<and>
   claimed_decreasing [- 10, - 10]"
  by code_simp

subsection \<open>Device registry\<close>

text \<open>
  C10. \<^verbatim>\<open>updateDeviceTokens\<close> called without an access token (missing or empty)
  leaves every stored encrypted access token and token expiry as it was; called without
  a refresh token it leaves every stored encrypted refresh token as it was. The update
  timestamp of the rows of this user with this identifier is always set to the instant
  of the call.
\<close>

theorem updateDeviceTokens_frame:
  "(\<not> truthy accessToken \<longrightarrow>
      map access_token_encrypted (connectedDevice (updateDeviceTokens user dev accessToken refreshToken now s))
        = map access_token_encrypted (connectedDevice s) \<and>
      map token_expires_at (connectedDevice (updateDeviceTokens user dev accessToken refreshToken now s))
        = map token_expires_at (connectedDevice s)) \<and>
   (\<not> truthy refreshToken \<longrightarrow>
      map refresh_token_encrypted (connectedDevice (updateDeviceTokens user dev accessToken refreshToken now s))
        = map refresh_token_encrypted (connectedDevice s)) \<and>
   map updated_at (connectedDevice (updateDeviceTokens user dev accessToken refreshToken now s))
     = map (\<lambda>d. if connected_device_id d = dev \<and> user_id d = user then Some now else updated_at d)
         (connectedDevice s)"
  by (simp add: updateDeviceTokens_def encrypt_if_given_def expiry_if_given_def
      set_unless_undefined_def)

theorem updateDeviceTokens_frame_witness:
  "map (\<lambda>d. (access_token_encrypted d, refresh_token_encrypted d, token_expires_at d, updated_at d))
     (connectedDevice alice_fitbit_db)
     = [(Some ''dG9r'', Some ''cmVm'', Some 1700003600000, Some 1700000000006)] \<and>
   map (\<lambda>d. (access_token_encrypted d, refresh_token_encrypted d, token_expires_at d, updated_at d))
     (connectedDevice (updateDeviceTokens ''alice'' 0 None (Some ''new'') 1700000500000 alice_fitbit_db))
     = [(Some ''dG9r'', Some ''bmV3'', Some 1700003600000, Some 1700000500000)] \<and>
   map (\<lambda>d. (access_token_encrypted d, refresh_token_encrypted d, token_expires_at d, updated_at d))
     (connectedDevice (updateDeviceTokens ''alice'' 0 (Some ''a'') None 1700000500000 alice_fitbit_db))
     = [(Some ''YQ=='', Some ''cmVm'', Some 1700004100000, Some 1700000500000)]"
proof -
  have "map (\<lambda>d. (access_token_encrypted d, refresh_token_encrypted d, token_expires_at d, updated_at d))
     (connectedDevice alice_fitbit_db)
     = [(Some ''dG9r'', Some ''cmVm'', Some 1700003600000, Some 1700000000006)]"
    by code_simp
  moreover have "map (\<lambda>d. (access_token_encrypted d, refresh_token_encrypted d, token_expires_at d, updated_at d))
     (connectedDevice (updateDeviceTokens ''alice'' 0 None (Some ''new'') 1700000500000 alice_fitbit_db))
     = [(Some ''dG9r'', Some ''bmV3'', Some 1700003600000, Some 1700000500000)]"
    by code_simp
  moreover have "map (\<lambda>d. (access_token_encrypted d, refresh_token_encrypted d, token_expires_at d, updated_at d))
     (connectedDevice (updateDeviceTokens ''alice'' 0 (Some ''a'') None 1700000500000 alice_fitbit_db))
     = [(Some ''YQ=='', Some ''cmVm'', Some 1700004100000, Some 1700000500000)]"
    by code_simp
  ultimately show ?thesis
    using updateDeviceTokens_frame [of None "''alice''" 0 "Some ''new''" 1700000500000 alice_fitbit_db]
          updateDeviceTokens_frame [of "Some ''a''" "''alice''" 0 None 1700000500000 alice_fitbit_db]
    by simp
qed

text \<open>The create branch marks every device primary.\<close>

lemma connectDevice_created_primary:
  assumes "deviceType \<in> set validDeviceTypes"
    and "List.find (\<lambda>d. user_id d = user \<and> device_type d = deviceType) (connectedDevice s) = None"
  shows "map_sum id is_primary_device
           (fst (connectDevice user deviceType deviceName accessToken refreshToken now clock rnd s))
         = Inr True"
  using assms by (simp add: connectDevice_def Let_def)

text \<open>
  C4. Required: a device created for a user who already has a device is not primary.
  Observed: the create branch of \<^verbatim>\<open>connectDevice\<close> always writes
  \<^verbatim>\<open>is_primary_device: true\<close>; after a FITBIT, a GARMIN connected by the same user
  is primary too.
\<close>

theorem connectDevice_second_device_primary:
  "map (\<lambda>d. (user_id d, device_type d, is_primary_device d)) (connectedDevice alice_fitbit_db)
     = [(''alice'', ''FITBIT'', True)] \<and>
   map_sum id is_primary_device
     (fst (connectDevice ''alice'' ''GARMIN'' ''Forerunner'' None None 1700000100000
             (\<lambda>k. 1700000100000 + int k) (\<lambda>i. 1 / 2) alice_fitbit_db)) = Inr True \<and>
   map (\<lambda>d. (user_id d, device_type d, is_primary_device d))
     (connectedDevice
        (snd (connectDevice ''alice'' ''GARMIN'' ''Forerunner'' None None 1700000100000
                (\<lambda>k. 1700000100000 + int k) (\<lambda>i. 1 / 2) alice_fitbit_db)))
     = [(''alice'', ''FITBIT'', True), (''alice'', ''GARMIN'', True)]"
  by code_simp

subsection \<open>Sync orchestrator\<close>

text \<open>
  C1. Required: after the initial sync of a freshly connected device the ledger has one
  activity record for each of the seven trailing dates. Observed:
  \<^verbatim>\<open>performInitialSync\<close> builds the seven dates, but each payload goes to
  \<^verbatim>\<open>syncDeviceData\<close>, which keys the record by today, and the ledger holds a single
  record, today's.
\<close>

theorem performInitialSync_single_record:
  "dailyActivitySummary empty_db = [] \<and>
   backfill_dates 1700000000000 = [19669, 19670, 19671, 19672, 19673, 19674, 19675] \<and>
   map summary_key
     (dailyActivitySummary
        (snd (connectDevice ''alice'' ''FITBIT'' ''Charge 5'' (Some ''tok'') (Some ''ref'')
                1700000000000 (\<lambda>k. 1700000000000 + int k) (\<lambda>i. 1 / 2) empty_db)))
     = [(''alice'', 0, 19675)]"
  by code_simp

text \<open>The state that the other examples start from is the one this connect leaves.\<close>

lemma alice_fitbit_db_reached:
  "snd (connectDevice ''alice'' ''FITBIT'' ''Charge 5'' (Some ''tok'') (Some ''ref'')
          1700000000000 (\<lambda>k. 1700000000000 + int k) (\<lambda>i. 1 / 2) empty_db)
     = alice_fitbit_db"
  by code_simp

subsection \<open>Merging a payload into the ledger\<close>

lemma find_map_preserve:
  "(\<And>x. P (f x) = P x) \<Longrightarrow> List.find P (map f xs) = map_option f (List.find P xs)"
  by (induction xs) simp_all

lemma find_device_update:
  assumes "\<And>d. connected_device_id (f d) = connected_device_id d \<and> user_id (f d) = user_id d"
  shows "find_device user dev (s\<lparr>dailyActivitySummary := rows,
            connectedDevice := update_device i f (connectedDevice s)\<rparr>)
         = map_option (\<lambda>d. if connected_device_id d = i then f d else d) (find_device user dev s)"
  unfolding find_device_def update_device_def
  by (simp add: find_map_preserve assms)

lemma touch_device_keeps [simp]:
  "connected_device_id (touch_device now d) = connected_device_id d"
  "user_id (touch_device now d) = user_id d"
  "device_type (touch_device now d) = device_type d"
  "device_name (touch_device now d) = device_name d"
  by (simp_all add: touch_device_def)

lemma update_data_key [simp]: "summary_key (update_data a raw now r) = summary_key r"
  by (simp add: update_data_def summary_key_def)

lemma create_data_key [simp]: "summary_key (create_data user dev d a raw name now) = (user, dev, d)"
  by (simp add: create_data_def summary_key_def)

lemma find_Some_ex: "List.find P xs = Some x \<Longrightarrow> \<exists>r\<in>set xs. P r"
  by (induction xs) (auto split: if_splits)

lemma upsert_rows:
  "snd (upsert_summary k upd new rows) =
     (if \<exists>r\<in>set rows. summary_key r = k
      then map (\<lambda>x. if summary_key x = k then upd x else x) rows
      else rows @ [new])"
  by (auto simp: upsert_summary_def find_None_iff split: option.splits dest: find_Some_ex)

lemma upsert_keyed_rows:
  assumes "summary_key new = k" and "\<And>r. summary_key (upd r) = summary_key r"
    and "x \<in> set (snd (upsert_summary k upd new rows))" and "summary_key x = k"
  shows "(\<exists>y\<in>set rows. summary_key y = k \<and> x = upd y) \<or> x = new"
  using assms by (auto simp: upsert_rows split: if_splits)

lemma upsert_has_key:
  assumes "summary_key new = k" and "\<And>r. summary_key (upd r) = summary_key r"
  shows "\<exists>r\<in>set (snd (upsert_summary k upd new rows)). summary_key r = k"
proof (cases "\<exists>r\<in>set rows. summary_key r = k")
  case True
  then obtain r where "r \<in> set rows" "summary_key r = k" by blast
  then have "upd r \<in> set (snd (upsert_summary k upd new rows))" "summary_key (upd r) = k"
    using True assms(2) by (auto simp: upsert_rows)
  then show ?thesis by blast
next
  case False
  then show ?thesis using assms(1) by (simp add: upsert_rows)
qed

lemma syncDeviceData_found:
  assumes "find_device user dev s = Some d"
  shows "syncDeviceData user dev a now s =
     (Inr (fst (upsert_summary (user, dev, utc_day now)
                  (update_data a (RawActivity a) now)
                  (create_data user dev (utc_day now) a (RawActivity a) (device_name d) now)
                  (dailyActivitySummary s))),
      s\<lparr>dailyActivitySummary :=
           snd (upsert_summary (user, dev, utc_day now)
                  (update_data a (RawActivity a) now)
                  (create_data user dev (utc_day now) a (RawActivity a) (device_name d) now)
                  (dailyActivitySummary s)),
         connectedDevice := update_device dev (touch_device now) (connectedDevice s)\<rparr>)"
  using assms by (simp add: syncDeviceData_def Let_def split: prod.splits)

lemma syncDeviceData_keeps_device:
  assumes "find_device user dev s = Some d"
  shows "\<exists>d'. find_device user dev (snd (syncDeviceData user dev a now s)) = Some d' \<and>
              device_name d' = device_name d"
  using assms
  by (auto simp: syncDeviceData_found [OF assms] find_device_update)

lemma update_data_twice:
  "update_data a raw t2 (update_data a raw t1 y)
     = (update_data a raw t1 y)\<lparr>sync_timestamp := t2, s_updated_at := Some t2\<rparr>"
  by (simp add: update_data_def set_unless_undefined_def split: option.splits)

lemma update_data_create:
  "update_data a raw t2 (create_data user dev d a raw name t1)
     = (create_data user dev d a raw name t1)\<lparr>sync_timestamp := t2, s_updated_at := Some t2\<rparr>"
  by (simp add: update_data_def create_data_def set_unless_undefined_def split: option.splits)

text \<open>
  C5, with the timestamps set apart. When the device belongs to the user and both calls
  fall on the same UTC date, a second \<^verbatim>\<open>syncDeviceData\<close> with the same payload
  succeeds and changes nothing in the ledger but the sync timestamp and the update
  timestamp of the record of that (user, device, date), which take the instant of the
  second call.
\<close>

theorem syncDeviceData_repeat:
  assumes owned: "find_device user dev s \<noteq> None"
    and day: "utc_day t2 = utc_day t1"
  shows "isl (fst (syncDeviceData user dev a t1 s)) = False \<and>
         isl (fst (syncDeviceData user dev a t2 (snd (syncDeviceData user dev a t1 s)))) = False \<and>
         dailyActivitySummary (snd (syncDeviceData user dev a t2 (snd (syncDeviceData user dev a t1 s))))
           = map (\<lambda>r. if summary_key r = (user, dev, utc_day t1)
                       then r\<lparr>sync_timestamp := t2, s_updated_at := Some t2\<rparr> else r)
               (dailyActivitySummary (snd (syncDeviceData user dev a t1 s)))"
proof -
  define d where "d = the (find_device user dev s)"
  let ?k = "(user, dev, utc_day t1)"
  let ?s1 = "snd (syncDeviceData user dev a t1 s)"
  let ?upd1 = "update_data a (RawActivity a) t1"
  let ?new1 = "create_data user dev (utc_day t1) a (RawActivity a) (device_name d) t1"
  let ?rows1 = "snd (upsert_summary ?k ?upd1 ?new1 (dailyActivitySummary s))"
  have dev: "find_device user dev s = Some d"
    using owned by (simp add: d_def)
  obtain d' where d': "find_device user dev ?s1 = Some d'"
    using syncDeviceData_keeps_device [OF dev] by blast
  have rows1: "dailyActivitySummary ?s1 = ?rows1"
    by (simp add: syncDeviceData_found [OF dev])
  have ex: "\<exists>r\<in>set ?rows1. summary_key r = ?k"
    by (rule upsert_has_key) simp_all
  have again: "update_data a (RawActivity a) t2 x = x\<lparr>sync_timestamp := t2, s_updated_at := Some t2\<rparr>"
    if "x \<in> set ?rows1" "summary_key x = ?k" for x
  proof -
    from upsert_keyed_rows [OF _ _ that]
    have "(\<exists>y\<in>set (dailyActivitySummary s). summary_key y = ?k \<and> x = ?upd1 y) \<or> x = ?new1"
      by simp
    then show ?thesis
      by (auto simp: update_data_twice update_data_create)
  qed
  have "dailyActivitySummary (snd (syncDeviceData user dev a t2 ?s1))
          = map (\<lambda>x. if summary_key x = ?k then update_data a (RawActivity a) t2 x else x) ?rows1"
    using ex by (simp add: syncDeviceData_found [OF d'] rows1 day upsert_rows)
  also have "\<dots> = map (\<lambda>r. if summary_key r = ?k
                       then r\<lparr>sync_timestamp := t2, s_updated_at := Some t2\<rparr> else r) ?rows1"
    by (rule map_cong) (auto simp: again)
  finally have eq: "dailyActivitySummary (snd (syncDeviceData user dev a t2 ?s1))
          = map (\<lambda>r. if summary_key r = ?k
                       then r\<lparr>sync_timestamp := t2, s_updated_at := Some t2\<rparr> else r) ?rows1" .
  have ok1: "\<not> isl (fst (syncDeviceData user dev a t1 s))"
    by (simp add: syncDeviceData_found [OF dev])
  have ok2: "\<not> isl (fst (syncDeviceData user dev a t2 ?s1))"
    by (simp add: syncDeviceData_found [OF d'])
  show ?thesis
    using ok1 ok2 eq rows1 by simp
qed


lemma alice_owns_device:
  "find_device ''alice'' 0 alice_fitbit_db \<noteq> None"
proof -
  have "map_option connected_device_id (find_device ''alice'' 0 alice_fitbit_db) = Some 0"
    by code_simp
  then show ?thesis by auto
qed

lemma same_day: "utc_day 1700000300000 = 19675" "utc_day 1700000200000 = 19675"
  by (simp_all add: utc_day_def msPerDay_def)

theorem syncDeviceData_repeat_witness:
  "find_device ''alice'' 0 alice_fitbit_db \<noteq> None \<and>
   utc_day 1700000300000 = utc_day 1700000200000 \<and>
   \<not> isl (fst (syncDeviceData ''alice'' 0 morning_payload 1700000300000
                 (snd (syncDeviceData ''alice'' 0 morning_payload 1700000200000 alice_fitbit_db)))) \<and>
   dailyActivitySummary
     (snd (syncDeviceData ''alice'' 0 morning_payload 1700000300000
            (snd (syncDeviceData ''alice'' 0 morning_payload 1700000200000 alice_fitbit_db))))
     = map (\<lambda>r. if summary_key r = (''alice'', 0, 19675)
                 then r\<lparr>sync_timestamp := 1700000300000, s_updated_at := Some 1700000300000\<rparr>
                 else r)
         (dailyActivitySummary
            (snd (syncDeviceData ''alice'' 0 morning_payload 1700000200000 alice_fitbit_db)))"
  using syncDeviceData_repeat [of "''alice''" 0 alice_fitbit_db 1700000300000 1700000200000
          morning_payload]
    alice_owns_device same_day
  by simp

text \<open>
  The record does not stay as it was: a second call, a hundred seconds after the first
  on the same date, changes the stored record.
\<close>

theorem syncDeviceData_repeat_counterexample:
  "utc_day 1700000300000 = utc_day 1700000200000 \<and>
   dailyActivitySummary
     (snd (syncDeviceData ''alice'' 0 morning_payload 1700000300000
            (snd (syncDeviceData ''alice'' 0 morning_payload 1700000200000 alice_fitbit_db))))
     \<noteq> dailyActivitySummary
         (snd (syncDeviceData ''alice'' 0 morning_payload 1700000200000 alice_fitbit_db))"
proof -
  have "map sync_timestamp (dailyActivitySummary
     (snd (syncDeviceData ''alice'' 0 morning_payload 1700000300000
            (snd (syncDeviceData ''alice'' 0 morning_payload 1700000200000 alice_fitbit_db)))))
     = [1700000300000]"
    by code_simp
  moreover have "map sync_timestamp (dailyActivitySummary
         (snd (syncDeviceData ''alice'' 0 morning_payload 1700000200000 alice_fitbit_db)))
     = [1700000200000]"
    by code_simp
  ultimately show ?thesis
    using same_day by auto
qed

lemma find_filter_conv:
  "List.find P xs = (case filter P xs of [] \<Rightarrow> None | x # _ \<Rightarrow> Some x)"
  by (induction xs) simp_all

lemma filter_key_unique:
  "distinct (map f xs) \<Longrightarrow> x \<in> set xs \<Longrightarrow> filter (\<lambda>y. f y = f x) xs = [x]"
proof (induction xs)
  case Nil
  then show ?case by simp
next
  case (Cons y ys)
  show ?case
  proof (cases "y = x")
    case True
    have "f x \<notin> f ` set ys"
      using Cons.prems(1) True by simp
    then have "filter (\<lambda>z. f z = f x) ys = []"
      unfolding filter_empty_conv by (metis imageI)
    with True show ?thesis by simp
  next
    case False
    with Cons show ?thesis by (auto simp: image_iff)
  qed
qed

lemma upsert_fst:
  "fst (upsert_summary k upd new rows) =
     (case filter (\<lambda>r. summary_key r = k) rows of [] \<Rightarrow> new | r # _ \<Rightarrow> upd r)"
  by (simp add: upsert_summary_def find_filter_conv split: list.splits)

lemma upsert_distinct:
  assumes "distinct (map summary_key rows)" "summary_key new = k"
    and "\<And>r. summary_key (upd r) = summary_key r"
  shows "distinct (map summary_key (snd (upsert_summary k upd new rows)))"
proof (cases "\<exists>r\<in>set rows. summary_key r = k")
  case True
  have eq: "map summary_key (map (\<lambda>x. if summary_key x = k then upd x else x) rows)
          = map summary_key rows"
    by (induction rows) (simp_all add: assms(3))
  have "snd (upsert_summary k upd new rows)
          = map (\<lambda>x. if summary_key x = k then upd x else x) rows"
    using True by (simp add: upsert_rows)
  then show ?thesis
    using assms(1) by (simp only: eq)
next
  case False
  with assms(1,2) show ?thesis by (auto simp: upsert_rows)
qed

lemma upsert_filter:
  assumes "distinct (map summary_key rows)" "summary_key new = k"
    and "\<And>r. summary_key (upd r) = summary_key r"
  shows "filter (\<lambda>r. summary_key r = k) (snd (upsert_summary k upd new rows))
           = [fst (upsert_summary k upd new rows)]"
proof (cases "\<exists>r\<in>set rows. summary_key r = k")
  case True
  then obtain r where r: "r \<in> set rows" "summary_key r = k" by blast
  have one: "filter (\<lambda>y. summary_key y = k) rows = [r]"
    using filter_key_unique [OF assms(1) r(1)] r(2) by simp
  have "filter (\<lambda>r. summary_key r = k) (map (\<lambda>x. if summary_key x = k then upd x else x) rows)
          = map upd (filter (\<lambda>y. summary_key y = k) rows)"
    by (induction rows) (simp_all add: assms(3))
  with True one show ?thesis by (simp add: upsert_rows upsert_fst)
next
  case False
  then have "filter (\<lambda>y. summary_key y = k) rows = []"
    by (auto simp: filter_empty_conv)
  with False assms(2) show ?thesis by (simp add: upsert_rows upsert_fst)
qed

text \<open>
  C6, with the optional fields set apart. When the device belongs to the user, the
  ledger has no two records with one key (as in every state that a run of operations
  reaches) and both calls fall on the same UTC date: after a sync of \<open>p1\<close> and then
  of \<open>p2\<close> there is a single record for the key; its steps, calories burned, active
  minutes and BMR estimate are those of \<open>p2\<close> (zero for one that \<open>p2\<close> omits); its
  heart rate, weight, body fat, sleep hours and distance are those of \<open>p2\<close> where
  \<open>p2\<close> gives them, and otherwise what the record held after \<open>p1\<close>.
\<close>

theorem syncDeviceData_overwrite:
  assumes owned: "find_device user dev s \<noteq> None"
    and day1: "utc_day t1 = dd" and day2: "utc_day t2 = dd"
    and uniq: "distinct (map summary_key (dailyActivitySummary s))"
  shows "\<exists>r1 r2.
     filter (\<lambda>r. summary_key r = (user, dev, dd))
       (dailyActivitySummary (snd (syncDeviceData user dev p1 t1 s))) = [r1] \<and>
     filter (\<lambda>r. summary_key r = (user, dev, dd))
       (dailyActivitySummary
          (snd (syncDeviceData user dev p2 t2 (snd (syncDeviceData user dev p1 t1 s))))) = [r2] \<and>
     fst (syncDeviceData user dev p2 t2 (snd (syncDeviceData user dev p1 t1 s))) = Inr r2 \<and>
     steps r2 = Some (or0 (p_steps p2)) \<and>
     calories_burned r2 = Some (or0 (caloriesBurned p2)) \<and>
     active_minutes r2 = Some (or0 (activeMinutes p2)) \<and>
     bmr_estimate r2 = Some (or0 (bmr p2)) \<and>
     heart_rate_avg r2 = (case heartRate p2 of Some v \<Rightarrow> Some v | None \<Rightarrow> heart_rate_avg r1) \<and>
     weight_kg r2 = (case weight p2 of Some v \<Rightarrow> Some v | None \<Rightarrow> weight_kg r1) \<and>
     body_fat_percentage r2
       = (case bodyFat p2 of Some v \<Rightarrow> Some v | None \<Rightarrow> body_fat_percentage r1) \<and>
     sleep_hours r2 = (case sleepHours p2 of Some v \<Rightarrow> Some v | None \<Rightarrow> sleep_hours r1) \<and>
     distance_km r2 = (case distance p2 of Some v \<Rightarrow> Some v | None \<Rightarrow> distance_km r1)"
proof -
  define d where "d = the (find_device user dev s)"
  have dev: "find_device user dev s = Some d"
    using owned by (simp add: d_def)
  let ?k = "(user, dev, dd)"
  let ?s1 = "snd (syncDeviceData user dev p1 t1 s)"
  let ?upd1 = "update_data p1 (RawActivity p1) t1"
  let ?new1 = "create_data user dev dd p1 (RawActivity p1) (device_name d) t1"
  let ?rows1 = "snd (upsert_summary ?k ?upd1 ?new1 (dailyActivitySummary s))"
  let ?r1 = "fst (upsert_summary ?k ?upd1 ?new1 (dailyActivitySummary s))"
  obtain d' where d': "find_device user dev ?s1 = Some d'"
    using syncDeviceData_keeps_device [OF dev] by blast
  let ?upd2 = "update_data p2 (RawActivity p2) t2"
  let ?new2 = "create_data user dev dd p2 (RawActivity p2) (device_name d') t2"
  have rows1: "dailyActivitySummary ?s1 = ?rows1"
    by (simp add: syncDeviceData_found [OF dev] day1)
  have f1: "filter (\<lambda>r. summary_key r = ?k) ?rows1 = [?r1]"
    by (rule upsert_filter [OF uniq]) simp_all
  have uniq1: "distinct (map summary_key ?rows1)"
    by (rule upsert_distinct [OF uniq]) simp_all
  have res2: "syncDeviceData user dev p2 t2 ?s1 =
     (Inr (fst (upsert_summary ?k ?upd2 ?new2 ?rows1)),
      ?s1\<lparr>dailyActivitySummary := snd (upsert_summary ?k ?upd2 ?new2 ?rows1),
          connectedDevice := update_device dev (touch_device t2) (connectedDevice ?s1)\<rparr>)"
    by (simp add: syncDeviceData_found [OF d'] day2 rows1)
  have f2: "filter (\<lambda>r. summary_key r = ?k) (snd (upsert_summary ?k ?upd2 ?new2 ?rows1))
              = [fst (upsert_summary ?k ?upd2 ?new2 ?rows1)]"
    by (rule upsert_filter [OF uniq1]) simp_all
  have r2: "fst (upsert_summary ?k ?upd2 ?new2 ?rows1) = ?upd2 ?r1"
    by (simp add: upsert_fst f1)
  show ?thesis
    apply (rule exI [of _ ?r1])
    apply (rule exI [of _ "?upd2 ?r1"])
    apply (simp only: rows1 f1 res2 snd_conv fst_conv)
    apply (simp add: f2 r2)
    apply (simp add: update_data_def set_unless_undefined_def)
    done
qed


lemma alice_ledger_keys:
  "map summary_key (dailyActivitySummary alice_fitbit_db) = [(''alice'', 0, 19675)]"
  by code_simp

theorem syncDeviceData_overwrite_witness:
  "find_device ''alice'' 0 alice_fitbit_db \<noteq> None \<and>
   utc_day 1700000200000 = 19675 \<and> utc_day 1700000300000 = 19675 \<and>
   distinct (map summary_key (dailyActivitySummary alice_fitbit_db)) \<and>
   (\<exists>r1 r2.
     filter (\<lambda>r. summary_key r = (''alice'', 0, 19675))
       (dailyActivitySummary
          (snd (syncDeviceData ''alice'' 0 morning_payload 1700000200000 alice_fitbit_db))) = [r1] \<and>
     filter (\<lambda>r. summary_key r = (''alice'', 0, 19675))
       (dailyActivitySummary
          (snd (syncDeviceData ''alice'' 0 evening_payload 1700000300000
                 (snd (syncDeviceData ''alice'' 0 morning_payload 1700000200000
                        alice_fitbit_db))))) = [r2] \<and>
     fst (syncDeviceData ''alice'' 0 evening_payload 1700000300000
            (snd (syncDeviceData ''alice'' 0 morning_payload 1700000200000 alice_fitbit_db)))
       = Inr r2 \<and>
     steps r2 = Some (or0 (p_steps evening_payload)) \<and>
     calories_burned r2 = Some (or0 (caloriesBurned evening_payload)) \<and>
     active_minutes r2 = Some (or0 (activeMinutes evening_payload)) \<and>
     bmr_estimate r2 = Some (or0 (bmr evening_payload)) \<and>
     heart_rate_avg r2
       = (case heartRate evening_payload of Some v \<Rightarrow> Some v | None \<Rightarrow> heart_rate_avg r1) \<and>
     weight_kg r2 = (case weight evening_payload of Some v \<Rightarrow> Some v | None \<Rightarrow> weight_kg r1) \<and>
     body_fat_percentage r2
       = (case bodyFat evening_payload of Some v \<Rightarrow> Some v | None \<Rightarrow> body_fat_percentage r1) \<and>
     sleep_hours r2
       = (case sleepHours evening_payload of Some v \<Rightarrow> Some v | None \<Rightarrow> sleep_hours r1) \<and>
     distance_km r2
       = (case distance evening_payload of Some v \<Rightarrow> Some v | None \<Rightarrow> distance_km r1))"
proof -
  have uniq: "distinct (map summary_key (dailyActivitySummary alice_fitbit_db))"
    by (simp add: alice_ledger_keys)
  show ?thesis
    using syncDeviceData_overwrite [OF alice_owns_device same_day(2) same_day(1) uniq,
            of morning_payload evening_payload]
      alice_owns_device same_day uniq
    by blast
qed

text \<open>
  Not every field is overwritten: the second payload gives no heart rate, weight or
  sleep hours, and the record keeps those of the first payload.
\<close>

theorem syncDeviceData_overwrite_counterexample:
  "heartRate evening_payload = None \<and> weight evening_payload = None \<and>
   sleepHours evening_payload = None \<and>
   map (\<lambda>r. (summary_key r, heart_rate_avg r, weight_kg r, sleep_hours r))
     (dailyActivitySummary
        (snd (syncDeviceData ''alice'' 0 evening_payload 1700000300000
               (snd (syncDeviceData ''alice'' 0 morning_payload 1700000200000 alice_fitbit_db)))))
     = [((''alice'', 0, 19675), Some 72, Some 70, Some 7)]"
  by code_simp

subsection \<open>Bulk sync\<close>


















subsection \<open>Uniqueness in the device registry\<close>

lemma update_device_keys:
  assumes "\<And>d. user_id (f d) = user_id d \<and> device_type (f d) = device_type d"
  shows "map (\<lambda>d. (user_id d, device_type d)) (update_device i f ds)
           = map (\<lambda>d. (user_id d, device_type d)) ds"
  by (induction ds) (simp_all add: update_device_def assms)

lemma syncDeviceData_device_keys:
  "device_keys (snd (syncDeviceData user dev a now s)) = device_keys s"
  by (simp add: syncDeviceData_def device_keys_def update_device_keys Let_def
      split: option.splits prod.splits)

lemma initial_sync_loop_device_keys:
  "device_keys (snd (initial_sync_loop user dev clock rnd k ds (n, s))) = device_keys s"
proof (induction ds arbitrary: k n s)
  case Nil
  then show ?case by simp
next
  case (Cons d ds)
  obtain res s' where r: "syncDeviceData user dev (sampleData rnd k) (clock k) s = (res, s')"
    by (cases "syncDeviceData user dev (sampleData rnd k) (clock k) s")
  have "device_keys s' = device_keys s"
    using syncDeviceData_device_keys [of user dev "sampleData rnd k" "clock k" s] r by simp
  then show ?case
    by (cases res) (simp_all add: r Cons.IH)
qed

lemma performInitialSync_device_keys:
  "device_keys (performInitialSync user dev deviceType now clock rnd s) = device_keys s"
  by (simp add: performInitialSync_def initial_sync_loop_device_keys)

lemma find_by_key:
  "(List.find (\<lambda>d. user_id d = user \<and> device_type d = deviceType) ds = None)
     = ((user, deviceType) \<notin> set (map (\<lambda>d. (user_id d, device_type d)) ds))"
  by (auto simp: find_None_iff)

lemma connectDevice_device_keys:
  "device_keys (snd (connectDevice user deviceType deviceName accessToken refreshToken now clock rnd s))
     = (if deviceType \<in> set validDeviceTypes \<and> (user, deviceType) \<notin> set (device_keys s)
        then device_keys s @ [(user, deviceType)] else device_keys s)"
proof (cases "deviceType \<in> set validDeviceTypes")
  case False
  then show ?thesis by (simp add: connectDevice_def)
next
  case True
  show ?thesis
  proof (cases "List.find (\<lambda>d. user_id d = user \<and> device_type d = deviceType) (connectedDevice s)")
    case None
    then have "(user, deviceType) \<notin> set (device_keys s)"
      by (simp add: find_by_key device_keys_def)
    with True None show ?thesis
      by (simp add: connectDevice_def Let_def performInitialSync_device_keys)
         (simp add: device_keys_def)
  next
    case (Some existing)
    then have "(user, deviceType) \<in> set (device_keys s)"
      using find_by_key [of user deviceType "connectedDevice s"]
      by (simp add: device_keys_def)
    with True Some show ?thesis
      by (simp add: connectDevice_def Let_def performInitialSync_device_keys)
         (simp add: device_keys_def update_device_keys)
  qed
qed

lemma disconnectDevice_device_keys:
  "device_keys (snd (disconnectDevice user dev now s)) = device_keys s"
  by (simp add: disconnectDevice_def device_keys_def update_device_keys split: option.splits)

lemma bulkSyncDeviceData_device_keys:
  "device_keys (snd (bulkSyncDeviceData user dev items now s)) = device_keys s"
  by (simp add: bulkSyncDeviceData_def device_keys_def update_device_keys
      split: option.splits prod.splits)

lemma updateDeviceTokens_device_keys:
  "device_keys (updateDeviceTokens user dev accessToken refreshToken now s) = device_keys s"
  by (simp add: updateDeviceTokens_def device_keys_def o_def if_distrib cong: if_cong)

lemma saveHealthData_devices:
  "connectedDevice (snd (saveHealthData userId deviceId data now s)) = connectedDevice s"
  by (cases "hk_date data") (simp_all add: saveHealthData_def split: prod.splits)

lemma upsert_device_keys:
  "device_keys (snd (upsert_device userId deviceType now s))
     = (if (userId, deviceType) \<notin> set (device_keys s)
        then device_keys s @ [(userId, deviceType)] else device_keys s)"
proof (cases "List.find (\<lambda>d. user_id d = userId \<and> device_type d = deviceType) (connectedDevice s)")
  case None
  then have "(userId, deviceType) \<notin> set (device_keys s)"
    by (simp add: find_by_key device_keys_def)
  then show ?thesis
    by (simp add: upsert_device_def None Let_def) (simp add: device_keys_def)
next
  case (Some existing)
  then have n: "(userId, deviceType) \<in> set (device_keys s)"
    using find_by_key [of userId deviceType "connectedDevice s"]
    by (simp add: device_keys_def)
  have keep: "map (\<lambda>d. (user_id d, device_type d))
          (map (\<lambda>d. if user_id d = userId \<and> device_type d = deviceType
                     then touch_device now d else d) ds)
        = map (\<lambda>d. (user_id d, device_type d)) ds" for ds
    by (induction ds) simp_all
  have "connectedDevice (snd (upsert_device userId deviceType now s))
          = map (\<lambda>d. if user_id d = userId \<and> device_type d = deviceType
                     then touch_device now d else d) (connectedDevice s)"
    by (simp add: upsert_device_def Some)
  then have "device_keys (snd (upsert_device userId deviceType now s)) = device_keys s"
    unfolding device_keys_def by (simp only: keep)
  with n show ?thesis by simp
qed

lemma syncWithDevice_device_keys:
  "device_keys (snd (syncWithDevice userId deviceType deviceData now s))
     = (if (userId, deviceType) \<notin> set (device_keys s)
        then device_keys s @ [(userId, deviceType)] else device_keys s)"
proof -
  obtain device s1 where u: "upsert_device userId deviceType now s = (device, s1)"
    by (cases "upsert_device userId deviceType now s")
  have "connectedDevice (snd (syncWithDevice userId deviceType deviceData now s))
          = connectedDevice s1"
  proof (cases "p_date deviceData \<noteq> Absent \<and> p_steps deviceData \<noteq> None")
    case False
    then show ?thesis by (auto simp: syncWithDevice_def u)
  next
    case True
    let ?data = "\<lparr>hk_steps = or0 (p_steps deviceData),
                       hk_caloriesBurned = or0 (caloriesBurned deviceData),
                       hk_activeMinutes = or0 (activeMinutes deviceData),
                       hk_heartRate = heartRate deviceData,
                       hk_weight = weight deviceData,
                       hk_distance = distance deviceData,
                       hk_date = p_date deviceData\<rparr>"
    obtain res s2 where sv:
      "saveHealthData userId (connected_device_id device) ?data now s1 = (res, s2)"
      by (cases "saveHealthData userId (connected_device_id device) ?data now s1")
    have "connectedDevice s2 = connectedDevice s1"
      using saveHealthData_devices [of userId "connected_device_id device" ?data now s1]
      by (simp add: sv)
    with True show ?thesis
      by (cases res) (simp_all add: syncWithDevice_def u sv)
  qed
  then have "device_keys (snd (syncWithDevice userId deviceType deviceData now s))
          = device_keys (snd (upsert_device userId deviceType now s))"
    by (simp add: device_keys_def u)
  then show ?thesis
    by (simp only: upsert_device_keys)
qed


lemma apply_operation_distinct:
  "distinct (device_keys s) \<Longrightarrow> distinct (device_keys (apply_operation op s))"
  by (cases op)
     (simp_all add: connectDevice_device_keys disconnectDevice_device_keys
        syncDeviceData_device_keys bulkSyncDeviceData_device_keys
        updateDeviceTokens_device_keys syncWithDevice_device_keys)

lemma run_distinct:
  "distinct (device_keys s) \<Longrightarrow> distinct (device_keys (run ops s))"
  by (induction ops arbitrary: s) (simp_all add: apply_operation_distinct)

lemma filter_key_le_1:
  "distinct (map f xs) \<Longrightarrow> length (filter (\<lambda>x. f x = k) xs) \<le> 1"
proof (induction xs)
  case Nil
  then show ?case by simp
next
  case (Cons x xs)
  show ?case
  proof (cases "f x = k")
    case True
    then have "k \<notin> f ` set xs"
      using Cons.prems by auto
    then have "filter (\<lambda>x. f x = k) xs = []"
      unfolding filter_empty_conv by (metis imageI)
    with True show ?thesis by simp
  next
    case False
    with Cons show ?thesis by simp
  qed
qed

lemma device_count_le_1:
  assumes "distinct (device_keys s)"
  shows "device_count user deviceType s \<le> 1"
proof -
  have "length (filter (\<lambda>d. (user_id d, device_type d) = (user, deviceType)) (connectedDevice s))
          \<le> 1"
    using assms unfolding device_keys_def by (rule filter_key_le_1)
  then show ?thesis by (simp add: device_count_def)
qed

lemma device_count_eq_1:
  assumes "distinct (device_keys s)" and "(user, deviceType) \<in> set (device_keys s)"
  shows "device_count user deviceType s = 1"
proof -
  from assms(2) obtain d where "d \<in> set (connectedDevice s)"
    "user_id d = user" "device_type d = deviceType"
    by (auto simp: device_keys_def)
  then have "filter (\<lambda>d. user_id d = user \<and> device_type d = deviceType) (connectedDevice s) \<noteq> []"
    by (auto simp: filter_empty_conv)
  then have "0 < device_count user deviceType s"
    by (simp add: device_count_def)
  with device_count_le_1 [OF assms(1), of user deviceType] show ?thesis by simp
qed

lemma empty_db_keys: "device_keys empty_db = []"
  by (simp add: device_keys_def empty_db_def)

lemma ids_step_fresh: "ids_fresh s \<Longrightarrow> ids_step s s' \<Longrightarrow> ids_fresh s'"
  unfolding ids_fresh_def ids_step_def list_all_iff
  by (elim disjE conjE) (auto simp: less_Suc_eq)

lemma ids_step_refl: "ids_step s s"
  by (simp add: ids_step_def)

lemma update_device_ids:
  assumes "\<And>d. connected_device_id (f d) = connected_device_id d"
  shows "map connected_device_id (update_device i f ds) = map connected_device_id ds"
  by (induction ds) (simp_all add: update_device_def assms)

lemma syncDeviceData_ids:
  "device_ids (snd (syncDeviceData user dev a now s)) = device_ids s \<and>
   next_id (snd (syncDeviceData user dev a now s)) = next_id s"
  by (simp add: syncDeviceData_def device_ids_def update_device_ids Let_def
      split: option.splits prod.splits)

lemma initial_sync_loop_ids:
  "device_ids (snd (initial_sync_loop user dev clock rnd k ds (n, s))) = device_ids s \<and>
   next_id (snd (initial_sync_loop user dev clock rnd k ds (n, s))) = next_id s"
proof (induction ds arbitrary: k n s)
  case Nil
  then show ?case by simp
next
  case (Cons d ds)
  obtain res s' where r: "syncDeviceData user dev (sampleData rnd k) (clock k) s = (res, s')"
    by (cases "syncDeviceData user dev (sampleData rnd k) (clock k) s")
  have "device_ids s' = device_ids s \<and> next_id s' = next_id s"
    using syncDeviceData_ids [of user dev "sampleData rnd k" "clock k" s] r by simp
  then show ?case
    by (cases res) (simp_all add: r Cons.IH)
qed

lemma performInitialSync_ids:
  "device_ids (performInitialSync user dev deviceType now clock rnd s) = device_ids s \<and>
   next_id (performInitialSync user dev deviceType now clock rnd s) = next_id s"
  by (simp add: performInitialSync_def initial_sync_loop_ids)

lemma connectDevice_ids:
  "ids_step s (snd (connectDevice user deviceType deviceName accessToken refreshToken now clock rnd s))"
proof (cases "deviceType \<in> set validDeviceTypes")
  case False
  then show ?thesis by (simp add: connectDevice_def ids_step_def)
next
  case True
  show ?thesis
  proof (cases "List.find (\<lambda>d. user_id d = user \<and> device_type d = deviceType) (connectedDevice s)")
    case None
    with True show ?thesis
      by (simp add: connectDevice_def Let_def performInitialSync_ids ids_step_def)
         (simp add: device_ids_def)
  next
    case (Some existing)
    with True show ?thesis
      by (simp add: connectDevice_def Let_def performInitialSync_ids ids_step_def)
         (simp add: device_ids_def update_device_ids)
  qed
qed

lemma disconnectDevice_ids: "ids_step s (snd (disconnectDevice user dev now s))"
  by (simp add: disconnectDevice_def device_ids_def update_device_ids ids_step_def
      split: option.splits)

lemma bulkSyncDeviceData_ids: "ids_step s (snd (bulkSyncDeviceData user dev items now s))"
  by (simp add: bulkSyncDeviceData_def device_ids_def update_device_ids ids_step_def
      split: option.splits prod.splits)

lemma updateDeviceTokens_ids:
  "ids_step s (updateDeviceTokens user dev accessToken refreshToken now s)"
  by (simp add: updateDeviceTokens_def device_ids_def ids_step_def o_def if_distrib
      cong: if_cong)

lemma saveHealthData_next_id:
  "next_id (snd (saveHealthData userId deviceId data now s)) = next_id s"
  by (cases "hk_date data") (simp_all add: saveHealthData_def split: prod.splits)

lemma upsert_device_ids: "ids_step s (snd (upsert_device userId deviceType now s))"
proof (cases "List.find (\<lambda>d. user_id d = userId \<and> device_type d = deviceType) (connectedDevice s)")
  case None
  then show ?thesis
    by (simp add: upsert_device_def Let_def ids_step_def device_ids_def)
next
  case (Some existing)
  have keep: "map connected_device_id
          (map (\<lambda>d. if user_id d = userId \<and> device_type d = deviceType
                     then touch_device now d else d) ds)
        = map connected_device_id ds" for ds
    by (induction ds) simp_all
  have "connectedDevice (snd (upsert_device userId deviceType now s))
          = map (\<lambda>d. if user_id d = userId \<and> device_type d = deviceType
                     then touch_device now d else d) (connectedDevice s)"
       "next_id (snd (upsert_device userId deviceType now s)) = next_id s"
    by (simp_all add: upsert_device_def Some)
  then show ?thesis
    unfolding ids_step_def device_ids_def by (simp only: keep) simp
qed

lemma syncWithDevice_ids: "ids_step s (snd (syncWithDevice userId deviceType deviceData now s))"
proof -
  obtain device s1 where u: "upsert_device userId deviceType now s = (device, s1)"
    by (cases "upsert_device userId deviceType now s")
  have "connectedDevice (snd (syncWithDevice userId deviceType deviceData now s))
          = connectedDevice s1 \<and>
        next_id (snd (syncWithDevice userId deviceType deviceData now s)) = next_id s1"
  proof (cases "p_date deviceData \<noteq> Absent \<and> p_steps deviceData \<noteq> None")
    case False
    then show ?thesis by (auto simp: syncWithDevice_def u)
  next
    case True
    let ?data = "\<lparr>hk_steps = or0 (p_steps deviceData),
                       hk_caloriesBurned = or0 (caloriesBurned deviceData),
                       hk_activeMinutes = or0 (activeMinutes deviceData),
                       hk_heartRate = heartRate deviceData,
                       hk_weight = weight deviceData,
                       hk_distance = distance deviceData,
                       hk_date = p_date deviceData\<rparr>"
    obtain res s2 where sv:
      "saveHealthData userId (connected_device_id device) ?data now s1 = (res, s2)"
      by (cases "saveHealthData userId (connected_device_id device) ?data now s1")
    have "connectedDevice s2 = connectedDevice s1 \<and> next_id s2 = next_id s1"
      using saveHealthData_devices [of userId "connected_device_id device" ?data now s1]
        saveHealthData_next_id [of userId "connected_device_id device" ?data now s1]
      by (simp add: sv)
    with True show ?thesis
      by (cases res) (simp_all add: syncWithDevice_def u sv)
  qed
  then have "device_ids (snd (syncWithDevice userId deviceType deviceData now s)) = device_ids s1"
    "next_id (snd (syncWithDevice userId deviceType deviceData now s)) = next_id s1"
    by (simp_all add: device_ids_def)
  moreover have "ids_step s s1"
    using upsert_device_ids [of s userId deviceType now] by (simp add: u)
  ultimately show ?thesis
    by (simp add: ids_step_def)
qed

lemma apply_operation_ids: "ids_step s (apply_operation op s)"
proof (cases op)
  case (Sync user dev a now)
  then show ?thesis by (simp add: ids_step_def syncDeviceData_ids)
qed (simp_all add: connectDevice_ids disconnectDevice_ids bulkSyncDeviceData_ids
      updateDeviceTokens_ids syncWithDevice_ids)

lemma run_ids_fresh: "ids_fresh s \<Longrightarrow> ids_fresh (run ops s)"
proof (induction ops arbitrary: s)
  case Nil
  then show ?case by simp
next
  case (Cons op ops)
  have "ids_fresh (apply_operation op s)"
    using Cons.prems apply_operation_ids by (rule ids_step_fresh)
  then show ?case by (simp add: Cons.IH)
qed

lemma empty_db_ids_fresh: "ids_fresh empty_db"
  by (simp add: ids_fresh_def device_ids_def empty_db_def)

lemma update_device_in_place:
  assumes "distinct (map connected_device_id (pre @ d # post))"
  shows "update_device (connected_device_id d) f (pre @ d # post) = pre @ f d # post"
proof -
  have "map (\<lambda>x. if connected_device_id x = connected_device_id d then f x else x) xs = xs"
    if "connected_device_id d \<notin> connected_device_id ` set xs" for xs
    using that by (induction xs) auto
  with assms show ?thesis
    by (auto simp: update_device_def)
qed

lemma update_device_twice:
  assumes "\<And>d. connected_device_id (g d) = connected_device_id d"
  shows "update_device i f (update_device i g ds) = update_device i (\<lambda>d. f (g d)) ds"
  by (induction ds) (simp_all add: update_device_def assms)

lemma touch_device_twice: "touch_device t2 (touch_device t1 d) = touch_device t2 d"
  by (simp add: touch_device_def)

lemma initial_sync_loop_devices:
  assumes "find_device user dev s \<noteq> None" and "ds \<noteq> []"
  shows "connectedDevice (snd (initial_sync_loop user dev clock rnd k ds (n, s)))
           = update_device dev (touch_device (clock (k + length ds - 1))) (connectedDevice s)"
  using assms
proof (induction ds arbitrary: k n s)
  case Nil
  then show ?case by simp
next
  case (Cons d ds)
  from Cons.prems(1) obtain d0 where f: "find_device user dev s = Some d0" by auto
  let ?rows = "snd (upsert_summary (user, dev, utc_day (clock k))
                  (update_data (sampleData rnd k) (RawActivity (sampleData rnd k)) (clock k))
                  (create_data user dev (utc_day (clock k)) (sampleData rnd k)
                     (RawActivity (sampleData rnd k)) (device_name d0) (clock k))
                  (dailyActivitySummary s))"
  let ?s' = "s\<lparr>dailyActivitySummary := ?rows,
               connectedDevice := update_device dev (touch_device (clock k)) (connectedDevice s)\<rparr>"
  have step: "initial_sync_loop user dev clock rnd k (d # ds) (n, s)
                = initial_sync_loop user dev clock rnd (Suc k) ds (Suc n, ?s')"
    by (simp add: syncDeviceData_found [OF f])
  have f': "find_device user dev ?s' \<noteq> None"
    by (simp add: find_device_update f)
  show ?case
  proof (cases "ds = []")
    case True
    then have "connectedDevice (snd (initial_sync_loop user dev clock rnd (Suc k) ds (Suc n, ?s')))
           = update_device dev (touch_device (clock k)) (connectedDevice s)"
      by simp
    with True show ?thesis
      unfolding step by simp
  next
    case False
    have "connectedDevice (snd (initial_sync_loop user dev clock rnd (Suc k) ds (Suc n, ?s')))
           = update_device dev (touch_device (clock (Suc k + length ds - 1))) (connectedDevice ?s')"
      using f' False by (rule Cons.IH)
    then show ?thesis
      unfolding step by (simp add: update_device_twice touch_device_twice)
  qed
qed

lemma backfill_dates_length: "length (backfill_dates now) = 7"
  by (simp add: backfill_dates_def)

lemma performInitialSync_devices:
  assumes "find_device user dev s \<noteq> None"
  shows "connectedDevice (performInitialSync user dev deviceType now clock rnd s)
           = update_device dev (touch_device (clock 6)) (connectedDevice s)"
proof -
  have "backfill_dates now \<noteq> []"
    using backfill_dates_length [of now] by auto
  with assms have "connectedDevice (snd (initial_sync_loop user dev clock rnd 0 (backfill_dates now) (0, s)))
      = update_device dev (touch_device (clock (0 + length (backfill_dates now) - 1))) (connectedDevice s)"
    by (rule initial_sync_loop_devices)
  then show ?thesis
    by (simp add: performInitialSync_def backfill_dates_length)
qed

lemma find_split:
  assumes "List.find P xs = Some d"
  shows "\<exists>pre post. xs = pre @ d # post \<and> P d"
  using assms
proof (induction xs)
  case Nil
  then show ?case by simp
next
  case (Cons x xs)
  show ?case
  proof (cases "P x")
    case True
    with Cons.prems have "x = d" by simp
    with True have "x # xs = [] @ d # xs \<and> P d" by simp
    then show ?thesis by blast
  next
    case False
    with Cons obtain pre post where "xs = pre @ d # post \<and> P d" by auto
    then have "x # xs = (x # pre) @ d # post \<and> P d" by simp
    then show ?thesis by blast
  qed
qed

text \<open>The update branch of a connect, on a registry with distinct identifiers.\<close>

lemma connectDevice_in_place:
  assumes valid: "deviceType \<in> set validDeviceTypes"
    and ids: "distinct (device_ids s)"
    and mem: "(user, deviceType) \<in> set (device_keys s)"
  shows "\<exists>pre d post.
      connectedDevice s = pre @ d # post \<and> user_id d = user \<and> device_type d = deviceType \<and>
      fst (connectDevice user deviceType name access refresh now clock rnd s)
        = Inr (d\<lparr>device_name := name,
                 connection_status := CONNECTED,
                 last_sync_time := Some now,
                 access_token_encrypted := encrypt_if_given access,
                 refresh_token_encrypted := encrypt_if_given refresh,
                 token_expires_at := expiry_if_given access now,
                 updated_at := Some now\<rparr>) \<and>
      connectedDevice (snd (connectDevice user deviceType name access refresh now clock rnd s))
        = pre @ d\<lparr>device_name := name,
                  connection_status := CONNECTED,
                  last_sync_time := Some (clock 6),
                  access_token_encrypted := encrypt_if_given access,
                  refresh_token_encrypted := encrypt_if_given refresh,
                  token_expires_at := expiry_if_given access now,
                  updated_at := Some (clock 6)\<rparr> # post"
proof -
  let ?upd = "\<lambda>d. d\<lparr>device_name := name,
                 connection_status := CONNECTED,
                 last_sync_time := Some now,
                 access_token_encrypted := encrypt_if_given access,
                 refresh_token_encrypted := encrypt_if_given refresh,
                 token_expires_at := expiry_if_given access now,
                 updated_at := Some now\<rparr>"
  from mem have "List.find (\<lambda>d. user_id d = user \<and> device_type d = deviceType) (connectedDevice s)
                   \<noteq> None"
    using find_by_key [of user deviceType "connectedDevice s"] by (simp add: device_keys_def)
  then obtain d where
    found: "List.find (\<lambda>d. user_id d = user \<and> device_type d = deviceType) (connectedDevice s) = Some d"
    by auto
  from find_split [OF found] obtain pre post where
    sp: "connectedDevice s = pre @ d # post" and key: "user_id d = user" "device_type d = deviceType"
    by blast
  let ?s1 = "s\<lparr>connectedDevice := update_device (connected_device_id d) ?upd (connectedDevice s)\<rparr>"
  have place: "update_device (connected_device_id d) f (connectedDevice s) = pre @ f d # post" for f
    using ids unfolding device_ids_def sp by (rule update_device_in_place)
  have "\<exists>x\<in>set (connectedDevice ?s1).
          connected_device_id x = connected_device_id d \<and> user_id x = user"
    by (rule bexI [of _ "?upd d"]) (simp_all add: key place)
  then have owned: "find_device user (connected_device_id d) ?s1 \<noteq> None"
    unfolding find_device_def find_None_iff by blast
  have res: "connectDevice user deviceType name access refresh now clock rnd s
          = (Inr (?upd d), performInitialSync user (connected_device_id d) deviceType now clock rnd ?s1)"
    using valid found by (simp add: connectDevice_def Let_def)
  have "connectedDevice (performInitialSync user (connected_device_id d) deviceType now clock rnd ?s1)
          = update_device (connected_device_id d) (touch_device (clock 6)) (connectedDevice ?s1)"
    using owned by (rule performInitialSync_devices)
  also have "\<dots> = update_device (connected_device_id d) (\<lambda>d. touch_device (clock 6) (?upd d))
                     (connectedDevice s)"
    by (simp add: update_device_twice)
  also have "\<dots> = pre @ touch_device (clock 6) (?upd d) # post"
    by (rule place)
  finally have "connectedDevice (snd (connectDevice user deviceType name access refresh now clock rnd s))
      = pre @ touch_device (clock 6) (?upd d) # post"
    by (simp add: res)
  then have stored:
    "connectedDevice (snd (connectDevice user deviceType name access refresh now clock rnd s))
       = pre @ d\<lparr>device_name := name,
                  connection_status := CONNECTED,
                  last_sync_time := Some (clock 6),
                  access_token_encrypted := encrypt_if_given access,
                  refresh_token_encrypted := encrypt_if_given refresh,
                  token_expires_at := expiry_if_given access now,
                  updated_at := Some (clock 6)\<rparr> # post"
    by (simp add: touch_device_def)
  have returned: "fst (connectDevice user deviceType name access refresh now clock rnd s)
        = Inr (?upd d)"
    by (simp add: res)
  show ?thesis
    by (rule exI [of _ pre], rule exI [of _ d], rule exI [of _ post])
       (intro conjI sp key returned stored)
qed

text \<open>
  C7. After any run of connect, disconnect, sync, bulk sync, token update and HealthKit
  sync operations from the empty database, a user has at most one device of a type. A
  connect of a supported type leaves exactly one device of that type for the user, and a
  second connect of the same type leaves exactly one again and adds no row: it returns
  the user's row of that type with the new name, status, tokens, expiry and the instant
  of the call as sync and update time, and the registry after it is the registry before
  it with that one row replaced, at its place, by the row returned, its sync and update
  time moved on to the instant of the last sync of the backfill.
\<close>

theorem device_registry_unique:
  "device_count user deviceType (run ops empty_db) \<le> 1 \<and>
   (deviceType \<in> set validDeviceTypes \<longrightarrow>
      (let s1 = snd (connectDevice user deviceType name1 access1 refresh1 now1 clock1 rnd1
                       (run ops empty_db));
           second = connectDevice user deviceType name2 access2 refresh2 now2 clock2 rnd2 s1;
           s2 = snd second
       in device_count user deviceType s1 = 1 \<and> device_count user deviceType s2 = 1 \<and>
          length (connectedDevice s2) = length (connectedDevice s1) \<and>
          (\<exists>pre d post.
             connectedDevice s1 = pre @ d # post \<and>
             user_id d = user \<and> device_type d = deviceType \<and>
             fst second
               = Inr (d\<lparr>device_name := name2,
                        connection_status := CONNECTED,
                        last_sync_time := Some now2,
                        access_token_encrypted := encrypt_if_given access2,
                        refresh_token_encrypted := encrypt_if_given refresh2,
                        token_expires_at := expiry_if_given access2 now2,
                        updated_at := Some now2\<rparr>) \<and>
             connectedDevice s2
               = pre @ d\<lparr>device_name := name2,
                         connection_status := CONNECTED,
                         last_sync_time := Some (clock2 6),
                         access_token_encrypted := encrypt_if_given access2,
                         refresh_token_encrypted := encrypt_if_given refresh2,
                         token_expires_at := expiry_if_given access2 now2,
                         updated_at := Some (clock2 6)\<rparr> # post)))"
proof (intro conjI impI)
  let ?s = "run ops empty_db"
  have inv: "distinct (device_keys ?s)"
    by (rule run_distinct) (simp add: empty_db_keys)
  show "device_count user deviceType ?s \<le> 1"
    using inv by (rule device_count_le_1)
  assume valid: "deviceType \<in> set validDeviceTypes"
  let ?s1 = "snd (connectDevice user deviceType name1 access1 refresh1 now1 clock1 rnd1 ?s)"
  let ?r2 = "connectDevice user deviceType name2 access2 refresh2 now2 clock2 rnd2 ?s1"
  let ?s2 = "snd ?r2"
  have inv1: "distinct (device_keys ?s1)"
    using inv by (simp add: connectDevice_device_keys)
  have mem1: "(user, deviceType) \<in> set (device_keys ?s1)"
    using valid by (simp add: connectDevice_device_keys)
  have keys2: "device_keys ?s2 = device_keys ?s1"
    using mem1 by (simp add: connectDevice_device_keys [of user deviceType name2])
  have c1: "device_count user deviceType ?s1 = 1"
    using inv1 mem1 by (rule device_count_eq_1)
  have c2: "device_count user deviceType ?s2 = 1"
    using inv1 mem1 unfolding keys2 [symmetric] by (rule device_count_eq_1)
  have "length (device_keys ?s2) = length (device_keys ?s1)"
    by (simp only: keys2)
  then have len: "length (connectedDevice ?s2) = length (connectedDevice ?s1)"
    by (simp add: device_keys_def)
  have "ids_fresh ?s"
    using empty_db_ids_fresh by (rule run_ids_fresh)
  then have "ids_fresh ?s1"
    using connectDevice_ids by (rule ids_step_fresh)
  then have ids1: "distinct (device_ids ?s1)"
    by (simp add: ids_fresh_def)
  note place = connectDevice_in_place [OF valid ids1 mem1,
      of name2 access2 refresh2 now2 clock2 rnd2]
  show "let s1 = ?s1;
            second = connectDevice user deviceType name2 access2 refresh2 now2 clock2 rnd2 s1;
            s2 = snd second
        in device_count user deviceType s1 = 1 \<and> device_count user deviceType s2 = 1 \<and>
          length (connectedDevice s2) = length (connectedDevice s1) \<and>
          (\<exists>pre d post.
             connectedDevice s1 = pre @ d # post \<and>
             user_id d = user \<and> device_type d = deviceType \<and>
             fst second
               = Inr (d\<lparr>device_name := name2,
                        connection_status := CONNECTED,
                        last_sync_time := Some now2,
                        access_token_encrypted := encrypt_if_given access2,
                        refresh_token_encrypted := encrypt_if_given refresh2,
                        token_expires_at := expiry_if_given access2 now2,
                        updated_at := Some now2\<rparr>) \<and>
             connectedDevice s2
               = pre @ d\<lparr>device_name := name2,
                         connection_status := CONNECTED,
                         last_sync_time := Some (clock2 6),
                         access_token_encrypted := encrypt_if_given access2,
                         refresh_token_encrypted := encrypt_if_given refresh2,
                         token_expires_at := expiry_if_given access2 now2,
                         updated_at := Some (clock2 6)\<rparr> # post)"
    unfolding Let_def using c1 c2 len place by blast
qed

lemma observed_pair: "map_prod id g p = (a, b) \<Longrightarrow> fst p = a \<and> g (snd p) = b"
  by (cases p) simp

lemma example_run_reached: "run example_run empty_db = run later_operations alice_fitbit_db"
  by (simp add: example_run_def alice_fitbit_db_reached)

theorem device_registry_unique_witness:
  "''FITBIT'' \<in> set validDeviceTypes \<and>
   device_count ''alice'' ''FITBIT'' (run example_run empty_db) \<le> 1 \<and>
   (let s1 = snd (connectDevice ''alice'' ''FITBIT'' ''Charge 6'' (Some ''t2'') None 1700000600000
                    (\<lambda>k. 1700000600000 + int k) (\<lambda>i. 1 / 4) (run example_run empty_db));
        second = connectDevice ''alice'' ''FITBIT'' ''Charge 7'' None None 1700000700000
                    (\<lambda>k. 1700000700000 + int k) (\<lambda>i. 3 / 4) s1;
        s2 = snd second
    in device_count ''alice'' ''FITBIT'' s1 = 1 \<and> device_count ''alice'' ''FITBIT'' s2 = 1 \<and>
       length (connectedDevice s2) = length (connectedDevice s1) \<and>
       connectedDevice s1 =
         [\<lparr>connected_device_id = 0, user_id = ''alice'', device_name = ''Charge 6'',
           device_type = ''FITBIT'', connection_status = CONNECTED,
           last_sync_time = Some 1700000600006, is_primary_device = True,
           access_token_encrypted = Some ''dDI='', refresh_token_encrypted = None,
           token_expires_at = Some 1700004200000, updated_at = Some 1700000600006\<rparr>,
          bob_row] \<and>
       fst second =
         Inr \<lparr>connected_device_id = 0, user_id = ''alice'', device_name = ''Charge 7'',
              device_type = ''FITBIT'', connection_status = CONNECTED,
              last_sync_time = Some 1700000700000, is_primary_device = True,
              access_token_encrypted = None, refresh_token_encrypted = None,
              token_expires_at = None, updated_at = Some 1700000700000\<rparr> \<and>
       connectedDevice s2 =
         [\<lparr>connected_device_id = 0, user_id = ''alice'', device_name = ''Charge 7'',
           device_type = ''FITBIT'', connection_status = CONNECTED,
           last_sync_time = Some 1700000700006, is_primary_device = True,
           access_token_encrypted = None, refresh_token_encrypted = None,
           token_expires_at = None, updated_at = Some 1700000700006\<rparr>,
          bob_row])"
proof -
  have v: "''FITBIT'' \<in> set validDeviceTypes"
    by (simp add: validDeviceTypes_def)
  have first: "connectedDevice
       (snd (connectDevice ''alice'' ''FITBIT'' ''Charge 6'' (Some ''t2'') None 1700000600000
               (\<lambda>k. 1700000600000 + int k) (\<lambda>i. 1 / 4)
               (run later_operations alice_fitbit_db))) =
         [\<lparr>connected_device_id = 0, user_id = ''alice'', device_name = ''Charge 6'',
           device_type = ''FITBIT'', connection_status = CONNECTED,
           last_sync_time = Some 1700000600006, is_primary_device = True,
           access_token_encrypted = Some ''dDI='', refresh_token_encrypted = None,
           token_expires_at = Some 1700004200000, updated_at = Some 1700000600006\<rparr>,
          bob_row]"
    by code_simp
  have "map_prod id connectedDevice
       (connectDevice ''alice'' ''FITBIT'' ''Charge 7'' None None 1700000700000
          (\<lambda>k. 1700000700000 + int k) (\<lambda>i. 3 / 4)
          (snd (connectDevice ''alice'' ''FITBIT'' ''Charge 6'' (Some ''t2'') None 1700000600000
                  (\<lambda>k. 1700000600000 + int k) (\<lambda>i. 1 / 4)
                  (run later_operations alice_fitbit_db)))) =
       (Inr \<lparr>connected_device_id = 0, user_id = ''alice'', device_name = ''Charge 7'',
              device_type = ''FITBIT'', connection_status = CONNECTED,
              last_sync_time = Some 1700000700000, is_primary_device = True,
              access_token_encrypted = None, refresh_token_encrypted = None,
              token_expires_at = None, updated_at = Some 1700000700000\<rparr>,
        [\<lparr>connected_device_id = 0, user_id = ''alice'', device_name = ''Charge 7'',
           device_type = ''FITBIT'', connection_status = CONNECTED,
           last_sync_time = Some 1700000700006, is_primary_device = True,
           access_token_encrypted = None, refresh_token_encrypted = None,
           token_expires_at = None, updated_at = Some 1700000700006\<rparr>,
          bob_row])"
    by code_simp
  note second = observed_pair [OF this]
  show ?thesis
    using device_registry_unique [of "''alice''" "''FITBIT''" example_run
        "''Charge 6''" "Some ''t2''" None 1700000600000 "\<lambda>k. 1700000600000 + int k" "\<lambda>i. 1 / 4"
        "''Charge 7''" None None 1700000700000 "\<lambda>k. 1700000700000 + int k" "\<lambda>i. 3 / 4"]
      v first second
    by (simp add: Let_def example_run_reached)
qed

subsection \<open>Uniqueness in the ledger\<close>

lemma syncDeviceData_ledger_distinct:
  assumes "distinct (ledger_keys s)"
  shows "distinct (ledger_keys (snd (syncDeviceData user dev a now s)))"
proof (cases "find_device user dev s")
  case None
  with assms show ?thesis by (simp add: syncDeviceData_def)
next
  case (Some d)
  have "distinct (map summary_key (snd (upsert_summary (user, dev, utc_day now)
                  (update_data a (RawActivity a) now)
                  (create_data user dev (utc_day now) a (RawActivity a) (device_name d) now)
                  (dailyActivitySummary s))))"
    using assms unfolding ledger_keys_def by (rule upsert_distinct) simp_all
  then show ?thesis
    by (simp add: syncDeviceData_found [OF Some] ledger_keys_def)
qed

lemma initial_sync_loop_ledger_distinct:
  "distinct (ledger_keys s) \<Longrightarrow>
   distinct (ledger_keys (snd (initial_sync_loop user dev clock rnd k ds (n, s))))"
proof (induction ds arbitrary: k n s)
  case Nil
  then show ?case by simp
next
  case (Cons d ds)
  obtain res s' where r: "syncDeviceData user dev (sampleData rnd k) (clock k) s = (res, s')"
    by (cases "syncDeviceData user dev (sampleData rnd k) (clock k) s")
  have "distinct (ledger_keys s')"
    using syncDeviceData_ledger_distinct [OF Cons.prems, of user dev "sampleData rnd k" "clock k"] r
    by simp
  then show ?case
    by (cases res) (simp_all add: r Cons.IH)
qed

lemma connectDevice_ledger_distinct:
  assumes "distinct (ledger_keys s)"
  shows "distinct (ledger_keys
           (snd (connectDevice user deviceType deviceName accessToken refreshToken now clock rnd s)))"
proof -
  have keep: "distinct (map summary_key
                  (dailyActivitySummary (performInitialSync user dev deviceType now clock rnd s')))"
    if "dailyActivitySummary s' = dailyActivitySummary s" for dev s'
    using assms that
      initial_sync_loop_ledger_distinct [of s' user dev clock rnd 0 "backfill_dates now" 0]
    by (simp add: performInitialSync_def ledger_keys_def)
  show ?thesis
  proof (cases "deviceType \<in> set validDeviceTypes")
    case False
    with assms show ?thesis by (simp add: connectDevice_def)
  next
    case True
    show ?thesis
      by (cases "List.find (\<lambda>d. user_id d = user \<and> device_type d = deviceType)
                   (connectedDevice s)")
         (simp_all add: connectDevice_def Let_def True keep ledger_keys_def)
  qed
qed

lemma bulk_loop_ledger_distinct:
  "distinct (map summary_key rows) \<Longrightarrow>
   distinct (map summary_key (snd (bulk_loop user dev name now items (results, rows))))"
proof (induction items arbitrary: results rows)
  case Nil
  then show ?case by simp
next
  case (Cons i items)
  show ?case
  proof (cases "p_date i")
    case (Valid d)
    obtain r rows' where u: "upsert_summary (user, dev, d) (update_data i (RawDay i) now)
             (create_data user dev d i (RawDay i) name now) rows = (r, rows')"
      by (cases "upsert_summary (user, dev, d) (update_data i (RawDay i) now)
             (create_data user dev d i (RawDay i) name now) rows")
    have "distinct (map summary_key (snd (upsert_summary (user, dev, d)
             (update_data i (RawDay i) now)
             (create_data user dev d i (RawDay i) name now) rows)))"
      using Cons.prems by (rule upsert_distinct) simp_all
    then have "distinct (map summary_key rows')"
      by (simp add: u)
    then show ?thesis
      by (simp add: Valid u Cons.IH)
  qed (simp_all add: Cons.IH Cons.prems)
qed

lemma bulkSyncDeviceData_ledger_distinct:
  assumes "distinct (ledger_keys s)"
  shows "distinct (ledger_keys (snd (bulkSyncDeviceData user dev items now s)))"
proof (cases "find_device user dev s")
  case None
  with assms show ?thesis by (simp add: bulkSyncDeviceData_def)
next
  case (Some d)
  obtain results rows where loop:
    "bulk_loop user dev (device_name d) now items ([], dailyActivitySummary s) = (results, rows)"
    by (cases "bulk_loop user dev (device_name d) now items ([], dailyActivitySummary s)")
  have "distinct (map summary_key rows)"
    using bulk_loop_ledger_distinct [of "dailyActivitySummary s" user dev "device_name d" now items "[]"]
      assms by (simp add: loop ledger_keys_def)
  then show ?thesis
    by (simp add: bulkSyncDeviceData_def Some loop ledger_keys_def)
qed

lemma saveHealthData_ledger_distinct:
  assumes "distinct (ledger_keys s)"
  shows "distinct (ledger_keys (snd (saveHealthData userId deviceId data now s)))"
proof (cases "hk_date data")
  case (Valid d)
  let ?upd = "\<lambda>r. r\<lparr>steps := Some (hk_steps data),
                            calories_burned := Some (hk_caloriesBurned data),
                            active_minutes := Some (hk_activeMinutes data),
                            heart_rate_avg := set_unless_undefined (hk_heartRate data) (heart_rate_avg r),
                            weight_kg := set_unless_undefined (hk_weight data) (weight_kg r),
                            distance_km := set_unless_undefined (hk_distance data) (distance_km r),
                            sync_timestamp := now,
                            s_updated_at := Some now\<rparr>"
  let ?new = "\<lparr>s_user_id = userId, device_id = deviceId, date = d,
                     steps = Some (hk_steps data),
                     calories_burned = Some (hk_caloriesBurned data),
                     active_minutes = Some (hk_activeMinutes data),
                     bmr_estimate = None,
                     heart_rate_avg = hk_heartRate data,
                     weight_kg = hk_weight data,
                     body_fat_percentage = None,
                     sleep_hours = None,
                     distance_km = hk_distance data,
                     source_device = ''HealthKit'',
                     sync_timestamp = now,
                     s_updated_at = None,
                     raw_data = RawHealthKit data\<rparr>"
  have "distinct (map summary_key (snd (upsert_summary (userId, deviceId, d) ?upd ?new
           (dailyActivitySummary s))))"
    using assms unfolding ledger_keys_def
    by (rule upsert_distinct) (simp_all add: summary_key_def)
  then show ?thesis
    by (simp add: saveHealthData_def Valid ledger_keys_def split_beta)
qed (simp_all add: saveHealthData_def assms)

lemma upsert_device_ledger:
  "dailyActivitySummary (snd (upsert_device userId deviceType now s)) = dailyActivitySummary s"
  by (simp add: upsert_device_def Let_def split: option.splits)

lemma syncWithDevice_ledger_distinct:
  assumes "distinct (ledger_keys s)"
  shows "distinct (ledger_keys (snd (syncWithDevice userId deviceType deviceData now s)))"
proof -
  obtain device s1 where u: "upsert_device userId deviceType now s = (device, s1)"
    by (cases "upsert_device userId deviceType now s")
  have s1: "distinct (ledger_keys s1)"
    using assms upsert_device_ledger [of userId deviceType now s]
    by (simp add: u ledger_keys_def)
  show ?thesis
  proof (cases "p_date deviceData \<noteq> Absent \<and> p_steps deviceData \<noteq> None")
    case False
    with s1 show ?thesis by (auto simp: syncWithDevice_def u)
  next
    case True
    let ?data = "\<lparr>hk_steps = or0 (p_steps deviceData),
                       hk_caloriesBurned = or0 (caloriesBurned deviceData),
                       hk_activeMinutes = or0 (activeMinutes deviceData),
                       hk_heartRate = heartRate deviceData,
                       hk_weight = weight deviceData,
                       hk_distance = distance deviceData,
                       hk_date = p_date deviceData\<rparr>"
    obtain res s2 where sv:
      "saveHealthData userId (connected_device_id device) ?data now s1 = (res, s2)"
      by (cases "saveHealthData userId (connected_device_id device) ?data now s1")
    have "distinct (ledger_keys s2)"
      using saveHealthData_ledger_distinct [OF s1, of userId "connected_device_id device" ?data now]
      by (simp add: sv)
    with True show ?thesis
      by (cases res) (simp_all add: syncWithDevice_def u sv)
  qed
qed

lemma apply_operation_ledger_distinct:
  "distinct (ledger_keys s) \<Longrightarrow> distinct (ledger_keys (apply_operation op s))"
proof (cases op)
  case (Disconnect user dev now)
  assume "distinct (ledger_keys s)"
  then show ?thesis
    by (simp add: Disconnect disconnectDevice_def ledger_keys_def split: option.splits)
next
  case (UpdateTokens user dev accessToken refreshToken now)
  assume "distinct (ledger_keys s)"
  then show ?thesis
    by (simp add: UpdateTokens updateDeviceTokens_def ledger_keys_def)
qed (simp_all add: connectDevice_ledger_distinct syncDeviceData_ledger_distinct
       bulkSyncDeviceData_ledger_distinct syncWithDevice_ledger_distinct)

lemma run_ledger_distinct:
  "distinct (ledger_keys s) \<Longrightarrow> distinct (ledger_keys (run ops s))"
  by (induction ops arbitrary: s) (simp_all add: apply_operation_ledger_distinct)

text \<open>
  Uniqueness in the ledger: after any run of operations from the empty database no two
  activity records have the same (user, device, date).
\<close>

lemma reachable_ledger_distinct:
  "distinct (map summary_key (dailyActivitySummary (run ops empty_db)))"
  using run_ledger_distinct [of empty_db ops]
  by (simp add: ledger_keys_def empty_db_def)

end
